(* ===== verification/Prelude.thy ===== *)
theory Prelude
  imports Main "HOL-Library.Multiset"
begin

text \<open>
  Shared vocabulary of the development: the names of the model's types, the
  collections of rewrite rules that the component theories fill, and the
  generic facts about association lists, maps and folds of map updates that
  the registration proofs use. Nothing here is specific to the repository.
\<close>

section \<open>Names of the model's types\<close>

text \<open>A JavaScript property key (the repository uses string keys only).\<close>

type_synonym prop_key = string

text \<open>An ordered property list: key and value, in order of creation.\<close>

type_synonym 'v prop_list = "(prop_key \<times> 'v) list"

section \<open>Rule collections\<close>

text \<open>
  \<open>js_simps\<close> collects the evaluation rules of the JavaScript object model,
  \<open>registry_simps\<close> those of the component registry; proofs about concrete
  inputs use them with \<open>simp add:\<close>.
\<close>

named_theorems js_simps "evaluation rules of the JavaScript object model"
named_theorems registry_simps "evaluation rules of the component registry"

section \<open>Association lists\<close>

lemma map_of_eq_None_iff_keys [simp]:
  "(map_of ps k = None) = (k \<notin> fst ` set ps)"
  by (simp add: map_of_eq_None_iff)

lemma map_of_Some_in_keys:
  "map_of ps k = Some v \<Longrightarrow> k \<in> fst ` set ps"
  by (metis map_of_eq_None_iff_keys option.distinct(1))

lemma dom_map_of_keys: "dom (map_of ps) = set (map fst ps)"
  by (simp add: dom_map_of_conv_image_fst)

section \<open>Folds of map updates\<close>

text \<open>
  Registering a list of names one after the other is a left fold of map
  updates in which every name is bound to the value a fixed lookup gives it.
  Its result does not depend on the order or on repetitions of the names.
\<close>

primrec upd_each :: "('k \<rightharpoonup> 'v) \<Rightarrow> 'k list \<Rightarrow> ('k \<rightharpoonup> 'v) \<Rightarrow> ('k \<rightharpoonup> 'v)" where
  "upd_each f [] m = m"
| "upd_each f (k # ks) m = upd_each f ks (case f k of None \<Rightarrow> m | Some v \<Rightarrow> m(k \<mapsto> v))"

lemma upd_each_restrict:
  "upd_each f ks m = m ++ (f |` set ks)"
proof (induction ks arbitrary: m)
  case Nil
  then show ?case by simp
next
  case (Cons k ks)
  show ?case
    by (auto simp: Cons.IH map_add_def restrict_map_def fun_eq_iff split: option.splits)
qed

lemma upd_each_set_eq:
  "set ks = set ks' \<Longrightarrow> upd_each f ks m = upd_each f ks' m"
  by (simp add: upd_each_restrict)

lemma restrict_dom_self [simp]: "f |` dom f = f"
  by (rule ext) (simp add: restrict_map_def domIff split: option.splits)

lemma map_add_idem_right [simp]: "(m ++ f) ++ f = m ++ f"
  by (auto simp: map_add_def fun_eq_iff split: option.splits)

section \<open>Positions in a list\<close>

text \<open>\<open>key_pos x xs\<close>: the position of the first occurrence of \<open>x\<close> in \<open>xs\<close>.\<close>

primrec key_pos :: "'a \<Rightarrow> 'a list \<Rightarrow> nat" where
  "key_pos x [] = 0"
| "key_pos x (y # ys) = (if x = y then 0 else Suc (key_pos x ys))"

lemma sorted_wrt_key_pos:
  "distinct ks \<Longrightarrow> sorted_wrt (\<lambda>a b. key_pos a ks < key_pos b ks) ks"
proof (induction ks)
  case Nil
  then show ?case by simp
next
  case (Cons k ks)
  from Cons have srt: "sorted_wrt (\<lambda>a b. key_pos a ks < key_pos b ks) ks" by simp
  have mono: "\<And>a b. a \<in> set ks \<Longrightarrow> b \<in> set ks \<Longrightarrow> key_pos a ks < key_pos b ks \<Longrightarrow>
      key_pos a (k # ks) < key_pos b (k # ks)"
    using Cons.prems by auto
  have "sorted_wrt (\<lambda>a b. key_pos a (k # ks) < key_pos b (k # ks)) ks"
    by (rule sorted_wrt_mono_rel [OF mono srt])
  with Cons.prems show ?case by auto
qed

end
