(* ===== verification/Js_Keys.thy ===== *)
theory Js_Keys
  imports Prelude "HOL-Library.Word"
begin

text \<open>
  Property keys of the JavaScript language as far as \<open>Object.keys\<close> orders
  them (line 8 of \<open>src/src/components/index.js\<close>). ECMAScript's
  OrdinaryOwnPropertyKeys lists the keys that are \<^emph>\<open>array indices\<close> first,
  in ascending numeric order, and the other string keys after them, in order
  of creation. A string is an array index when it is the canonical decimal
  numeral \<open>ToString(n)\<close> of an integer \<open>n < 2^32 - 1\<close>. This theory defines
  the decimal conversions, the array-index test, and proves that the test
  holds exactly of the numerals \<open>ToString(n)\<close> for \<open>n < 2^32 - 1\<close>.
\<close>

section \<open>Decimal digits\<close>

definition is_decimal_digit :: "char \<Rightarrow> bool" where
  "is_decimal_digit c \<longleftrightarrow> (48::nat) \<le> of_char c \<and> of_char c \<le> (57::nat)"

definition digit_char :: "nat \<Rightarrow> char" where
  "digit_char d = char_of (48 + d)"

definition char_digit :: "char \<Rightarrow> nat" where
  "char_digit c = of_char c - 48"

lemma char_digit_digit_char [simp]: "d < 10 \<Longrightarrow> char_digit (digit_char d) = d"
  by (simp add: char_digit_def digit_char_def)

lemma is_decimal_digit_digit_char [simp]: "d < 10 \<Longrightarrow> is_decimal_digit (digit_char d)"
  by (simp add: is_decimal_digit_def digit_char_def)

lemma char_digit_less [simp]: "is_decimal_digit c \<Longrightarrow> char_digit c < 10"
  unfolding is_decimal_digit_def char_digit_def by linarith

lemma digit_char_char_digit [simp]: "is_decimal_digit c \<Longrightarrow> digit_char (char_digit c) = c"
  by (rule of_char_eqI) (simp add: is_decimal_digit_def char_digit_def digit_char_def)

lemma digit_char_zero_iff: "d < 10 \<Longrightarrow> (digit_char d = CHR ''0'') = (d = 0)"
proof -
  assume "d < 10"
  have "CHR ''0'' = digit_char 0"
    by (rule of_char_eqI [where ?'a = nat]) (simp add: digit_char_def)
  moreover have "(digit_char d = digit_char 0) = (d = 0)"
    using \<open>d < 10\<close> by (metis char_digit_digit_char zero_less_numeral)
  ultimately show ?thesis by simp
qed

section \<open>Number to string and back\<close>

text \<open>
  \<open>nat_to_string n\<close> is \<open>Number::toString(n)\<close> for a non-negative integer:
  its decimal numeral, with no leading zero.
\<close>

fun nat_to_string :: "nat \<Rightarrow> string" where
  "nat_to_string n =
     (if n < 10 then [digit_char n] else nat_to_string (n div 10) @ [digit_char (n mod 10)])"

declare nat_to_string.simps [simp del]

text \<open>\<open>string_to_nat s\<close> reads a string of decimal digits.\<close>

definition string_to_nat :: "string \<Rightarrow> nat" where
  "string_to_nat s = foldl (\<lambda>acc c. 10 * acc + char_digit c) 0 s"

lemma string_to_nat_Nil [simp]: "string_to_nat [] = 0"
  by (simp add: string_to_nat_def)

lemma string_to_nat_snoc [simp]:
  "string_to_nat (s @ [c]) = 10 * string_to_nat s + char_digit c"
  by (simp add: string_to_nat_def)

lemma string_to_nat_single [simp]: "string_to_nat [c] = char_digit c"
  by (simp add: string_to_nat_def)

lemma string_to_nat_Cons:
  "string_to_nat (c # s) = char_digit c * 10 ^ length s + string_to_nat s"
proof (induction s rule: rev_induct)
  case Nil
  then show ?case by (simp add: string_to_nat_def)
next
  case (snoc x xs)
  then have "string_to_nat ((c # xs) @ [x]) =
      10 * (char_digit c * 10 ^ length xs + string_to_nat xs) + char_digit x"
    by (simp only: string_to_nat_snoc)
  then show ?case by (simp add: algebra_simps)
qed

text \<open>A canonical decimal numeral: non-empty, digits only, no leading zero.\<close>

definition canonical_decimal :: "string \<Rightarrow> bool" where
  "canonical_decimal s \<longleftrightarrow>
     s \<noteq> [] \<and> list_all is_decimal_digit s \<and> (hd s = CHR ''0'' \<longrightarrow> s = ''0'')"

lemma nat_to_string_nonempty [simp]: "nat_to_string n \<noteq> []"
  by (subst nat_to_string.simps) simp

lemma nat_to_string_digits: "list_all is_decimal_digit (nat_to_string n)"
proof (induction n rule: nat_to_string.induct)
  case (1 n)
  then show ?case by (subst nat_to_string.simps) auto
qed

lemma hd_nat_to_string: "hd (nat_to_string n) = CHR ''0'' \<Longrightarrow> n = 0"
proof (induction n rule: nat_to_string.induct)
  case (1 n)
  show ?case
  proof (cases "n < 10")
    case True
    with "1.prems" show ?thesis
      by (simp add: nat_to_string.simps [of n] digit_char_zero_iff)
  next
    case False
    with "1.prems" have "hd (nat_to_string (n div 10)) = CHR ''0''"
      by (simp add: nat_to_string.simps [of n])
    with False "1.IH" have "n div 10 = 0" by simp
    with False show ?thesis by simp
  qed
qed

lemma canonical_nat_to_string: "canonical_decimal (nat_to_string n)"
proof -
  have "hd (nat_to_string n) = CHR ''0'' \<Longrightarrow> nat_to_string n = ''0''"
    using hd_nat_to_string by (force simp: nat_to_string.simps [of 0] digit_char_def)
  then show ?thesis
    by (simp add: canonical_decimal_def nat_to_string_digits)
qed

lemma string_to_nat_nat_to_string [simp]: "string_to_nat (nat_to_string n) = n"
proof (induction n rule: nat_to_string.induct)
  case (1 n)
  then show ?case
    by (subst nat_to_string.simps) (simp add: string_to_nat_def)
qed

lemma char_digit_pos:
  "is_decimal_digit c \<Longrightarrow> c \<noteq> CHR ''0'' \<Longrightarrow> 0 < char_digit c"
  by (metis digit_char_char_digit digit_char_zero_iff char_digit_less gr0I)

lemma string_to_nat_pos:
  assumes "s \<noteq> []" "is_decimal_digit (hd s)" "hd s \<noteq> CHR ''0''"
  shows "0 < string_to_nat s"
proof -
  obtain c t where s: "s = c # t" using assms(1) by (cases s) auto
  with assms have "0 < char_digit c" by (simp add: char_digit_pos)
  then show ?thesis by (simp add: s string_to_nat_Cons)
qed

lemma canonical_decimal_butlast:
  assumes "canonical_decimal (xs @ [c])" "xs \<noteq> []"
  shows "canonical_decimal xs" "is_decimal_digit c" "0 < string_to_nat xs"
proof -
  from assms have hd: "hd (xs @ [c]) = hd xs" by simp
  from assms have ne: "xs @ [c] \<noteq> ''0''" by (cases xs) auto
  from assms hd ne show "canonical_decimal xs"
    by (auto simp: canonical_decimal_def)
  from assms show "is_decimal_digit c"
    by (simp add: canonical_decimal_def)
  from assms hd ne show "0 < string_to_nat xs"
    by (intro string_to_nat_pos) (auto simp: canonical_decimal_def list_all_iff)
qed

lemma nat_to_string_string_to_nat:
  "canonical_decimal s \<Longrightarrow> nat_to_string (string_to_nat s) = s"
proof (induction s rule: rev_induct)
  case Nil
  then show ?case by (simp add: canonical_decimal_def)
next
  case (snoc c xs)
  show ?case
  proof (cases "xs = []")
    case True
    with snoc.prems have "is_decimal_digit c" by (simp add: canonical_decimal_def)
    with True show ?thesis by (simp add: nat_to_string.simps [of "char_digit c"])
  next
    case False
    note facts = canonical_decimal_butlast [OF snoc.prems False]
    let ?n = "10 * string_to_nat xs + char_digit c"
    from facts have "\<not> ?n < 10" "?n div 10 = string_to_nat xs" "?n mod 10 = char_digit c"
      by simp_all
    with facts snoc.IH show ?thesis
      by (simp add: nat_to_string.simps [of ?n])
  qed
qed

section \<open>Array indices\<close>

text \<open>
  ECMAScript: a String is an array index when it is the canonical numeric
  string of an integer in \<open>[0, 2^32 - 2]\<close>, that is
  \<open>ToString(ToUint32(P)) = P\<close> and \<open>ToUint32(P) \<noteq> 2^32 - 1\<close>. The test below
  reads the same set of strings off the characters.
\<close>

definition array_index_limit :: nat where
  "array_index_limit = 4294967295"

definition is_array_index :: "string \<Rightarrow> bool" where
  "is_array_index s \<longleftrightarrow> canonical_decimal s \<and> string_to_nat s < array_index_limit"

text \<open>
  ECMAScript's ToUint32 on the numeric value of a digit string (a
  non-negative integer): the value modulo \<open>2^32\<close>, as a 32-bit word.
\<close>

definition to_uint32 :: "nat \<Rightarrow> 32 word" where
  "to_uint32 n = word_of_nat n"

lemma unat_to_uint32: "unat (to_uint32 n) = n mod 4294967296"
  by (simp add: to_uint32_def unat_of_nat)

lemma to_uint32_max_iff: "(to_uint32 n = - 1) = (n mod 4294967296 = 4294967295)"
proof -
  have "(to_uint32 n = - 1) = (unat (to_uint32 n) = unat (- 1 :: 32 word))"
    by (simp add: word_unat_eq_iff)
  then show ?thesis by (simp add: unat_to_uint32 unsigned_minus_1_eq_mask mask_eq_exp_minus_1)
qed

lemma is_array_index_nat_to_string [js_simps]:
  "is_array_index (nat_to_string n) = (n < array_index_limit)"
  by (simp add: is_array_index_def canonical_nat_to_string)

lemma array_index_inj:
  "is_array_index a \<Longrightarrow> is_array_index b \<Longrightarrow> string_to_nat a = string_to_nat b \<Longrightarrow> a = b"
  by (metis is_array_index_def nat_to_string_string_to_nat)

lemma inj_on_string_to_nat: "inj_on string_to_nat {s. is_array_index s}"
  by (auto intro: inj_onI array_index_inj)

text \<open>
  The array-index test holds exactly of the numerals \<open>ToString(n)\<close>
  of the integers \<open>n < 2^32 - 1\<close>.
\<close>

lemma is_array_index_iff:
  "is_array_index s = (\<exists>n < array_index_limit. s = nat_to_string n)"
proof
  assume "is_array_index s"
  then have "s = nat_to_string (string_to_nat s)" "string_to_nat s < array_index_limit"
    by (simp_all add: is_array_index_def nat_to_string_string_to_nat)
  then show "\<exists>n < array_index_limit. s = nat_to_string n" by blast
next
  assume "\<exists>n < array_index_limit. s = nat_to_string n"
  then show "is_array_index s" by (auto simp: is_array_index_nat_to_string)
qed

text \<open>
  For a string of decimal digits without leading zero, the test agrees
  with the specification's own definition of an array index on 32-bit words:
  \<open>ToString(ToUint32(P)) = P\<close> and \<open>ToUint32(P) \<noteq> 2^32 - 1\<close>. Values that
  wrap around modulo \<open>2^32\<close> and the value \<open>2^32 - 1\<close> are not array indices.
\<close>

lemma is_array_index_uint32:
  assumes "canonical_decimal s"
  shows "is_array_index s =
    (nat_to_string (unat (to_uint32 (string_to_nat s))) = s \<and> to_uint32 (string_to_nat s) \<noteq> - 1)"
proof
  assume "is_array_index s"
  then have lt: "string_to_nat s < 4294967295"
    by (simp add: is_array_index_def array_index_limit_def)
  then have "string_to_nat s mod 4294967296 = string_to_nat s" by simp
  with lt assms show "nat_to_string (unat (to_uint32 (string_to_nat s))) = s \<and>
      to_uint32 (string_to_nat s) \<noteq> - 1"
    by (simp add: unat_to_uint32 to_uint32_max_iff nat_to_string_string_to_nat)
next
  assume r: "nat_to_string (unat (to_uint32 (string_to_nat s))) = s \<and> to_uint32 (string_to_nat s) \<noteq> - 1"
  let ?v = "string_to_nat s"
  from r have "string_to_nat (nat_to_string (?v mod 4294967296)) = ?v"
    by (simp add: unat_to_uint32)
  then have eq: "?v mod 4294967296 = ?v" by simp
  from r have "?v mod 4294967296 \<noteq> 4294967295"
    by (simp add: to_uint32_max_iff)
  moreover have "?v mod 4294967296 < 4294967296" by simp
  ultimately have "?v < 4294967295" using eq by linarith
  with assms show "is_array_index s"
    by (simp add: is_array_index_def array_index_limit_def)
qed

end
