(* ===== verification/Js_Object.thy ===== *)
theory Js_Object
  imports Js_Keys
begin

text \<open>
  Ordinary JavaScript objects with string keys and data properties, as the
  registration module uses them: the object literal \<open>{ IntersectionScroller }\<close>
  (lines 4--6 of \<open>src/src/components/index.js\<close>), the property read
  \<open>Components[name]\<close> (line 9) and \<open>Object.keys(Components)\<close> (line 8).
  An object is its list of own properties in order of creation; that order
  is what \<open>Object.keys\<close> reports for the keys that are not array indices.
\<close>

section \<open>Objects and their operations\<close>

datatype 'v js_object = JsObject (props: "'v prop_list")

text \<open>Well-formed: no key occurs twice among the own properties.\<close>

definition obj_wf :: "'v js_object \<Rightarrow> bool" where
  "obj_wf obj \<longleftrightarrow> distinct (map fst (props obj))"

text \<open>
  CreateDataProperty on an ordinary object: an existing key keeps its place
  and takes the new value; a new key is created after all existing ones.
\<close>

fun define_prop :: "prop_key \<Rightarrow> 'v \<Rightarrow> 'v prop_list \<Rightarrow> 'v prop_list" where
  "define_prop k v [] = [(k, v)]"
| "define_prop k v ((k', v') # ps) =
     (if k = k' then (k, v) # ps else (k', v') # define_prop k v ps)"

definition obj_define :: "prop_key \<Rightarrow> 'v \<Rightarrow> 'v js_object \<Rightarrow> 'v js_object" where
  "obj_define k v obj = JsObject (define_prop k v (props obj))"

definition empty_object :: "'v js_object" where
  "empty_object = JsObject []"

text \<open>
  Evaluating an object literal \<open>{ k1: v1, ..., kn: vn }\<close> (a shorthand
  property \<open>{ x }\<close> is \<open>{ x: x }\<close>): a fresh object, then one
  CreateDataProperty per entry, left to right.
\<close>

definition obj_literal :: "'v prop_list \<Rightarrow> 'v js_object" where
  "obj_literal defs = foldl (\<lambda>obj (k, v). obj_define k v obj) empty_object defs"

text \<open>
  \<open>obj[k]\<close> for an own property: its value, \<open>None\<close> standing for
  \<open>undefined\<close> when the object has no own property \<open>k\<close>.
\<close>

definition obj_get :: "'v js_object \<Rightarrow> prop_key \<Rightarrow> 'v option" where
  "obj_get obj k = map_of (props obj) k"

text \<open>
  \<open>Object.keys(obj)\<close>, i.e. EnumerableOwnProperties over
  OrdinaryOwnPropertyKeys for an object whose properties are all enumerable
  string-keyed data properties (every property an object literal creates is):
  the array-index keys in ascending numeric order, then the other keys in
  order of creation.
\<close>

definition object_keys :: "'v js_object \<Rightarrow> prop_key list" where
  "object_keys obj =
     (let ks = map fst (props obj)
      in sort_key string_to_nat (filter is_array_index ks) @ filter (\<lambda>k. \<not> is_array_index k) ks)"

text \<open>
  The order OrdinaryOwnPropertyKeys promises, stated on its own: an array
  index comes before every other key and array indices are ordered by value;
  two other keys are ordered by creation.
\<close>

definition key_precedes :: "'v js_object \<Rightarrow> prop_key \<Rightarrow> prop_key \<Rightarrow> bool" where
  "key_precedes obj a b \<longleftrightarrow>
     (if is_array_index a then \<not> is_array_index b \<or> string_to_nat a < string_to_nat b
      else \<not> is_array_index b \<and> key_pos a (map fst (props obj)) < key_pos b (map fst (props obj)))"

section \<open>Creating properties\<close>

lemma obj_get_map_of: "obj_get obj = map_of (props obj)"
  by (rule ext) (simp add: obj_get_def)

lemma map_of_define_prop: "map_of (define_prop k v ps) = (map_of ps)(k \<mapsto> v)"
  by (induction ps) (auto simp: fun_eq_iff)

lemma keys_define_prop:
  "map fst (define_prop k v ps) =
     (if k \<in> set (map fst ps) then map fst ps else map fst ps @ [k])"
  by (induction ps) (auto, force)

lemma obj_get_obj_define [js_simps]: "obj_get (obj_define k v obj) = (obj_get obj)(k \<mapsto> v)"
  by (simp add: obj_get_map_of obj_define_def map_of_define_prop)

lemma keys_obj_define:
  "map fst (props (obj_define k v obj)) =
     (if k \<in> set (map fst (props obj)) then map fst (props obj) else map fst (props obj) @ [k])"
  by (simp add: obj_define_def keys_define_prop)

lemma obj_literal_Nil [js_simps]: "obj_literal [] = empty_object"
  by (simp add: obj_literal_def)

lemma obj_literal_snoc [js_simps]:
  "obj_literal (defs @ [(k, v)]) = obj_define k v (obj_literal defs)"
  by (simp add: obj_literal_def)

lemma obj_get_empty [js_simps]: "obj_get empty_object = Map.empty"
  by (simp add: obj_get_map_of empty_object_def)

lemma keys_empty [js_simps]: "props empty_object = []"
  by (simp add: empty_object_def)

lemma mset_object_keys: "mset (object_keys obj) = mset (map fst (props obj))"
  by (simp add: object_keys_def Let_def)

lemma set_keys_dom: "fst ` set (props obj) = dom (obj_get obj)"
  by (simp add: obj_get_map_of dom_map_of_conv_image_fst)

section \<open>Well-formedness\<close>

text \<open>
  Creating a property neither introduces nor removes a duplicate own key:
  the object after CreateDataProperty is well-formed exactly when it was before.
\<close>

lemma obj_wf_obj_define: "obj_wf (obj_define k v obj) = obj_wf obj"
  by (simp add: obj_wf_def keys_obj_define)

lemma obj_wf_define_step: "obj_wf obj \<Longrightarrow> obj_wf (obj_define k v obj)"
  by (simp add: obj_wf_def keys_obj_define)

text \<open>Every object an object literal evaluates to is well-formed.\<close>

lemma obj_wf_obj_literal: "obj_wf (obj_literal defs)"
proof (induction defs rule: rev_induct)
  case Nil
  then show ?case by (simp add: obj_literal_Nil obj_wf_def keys_empty)
next
  case (snoc d defs)
  then show ?case by (cases d) (simp add: obj_literal_snoc obj_wf_define_step)
qed

text \<open>
  Reading a property of an object literal gives the value of the last
  entry with that key (a later duplicate key overwrites an earlier one).
\<close>

lemma obj_get_obj_literal: "obj_get (obj_literal defs) = map_of (rev defs)"
proof (induction defs rule: rev_induct)
  case Nil
  then show ?case by (simp add: obj_literal_Nil obj_get_empty)
next
  case (snoc d defs)
  then show ?case by (cases d) (simp add: obj_literal_snoc obj_get_obj_define)
qed

lemma keys_obj_literal_set: "fst ` set (props (obj_literal defs)) = fst ` set defs"
  by (simp add: set_keys_dom obj_get_obj_literal dom_map_of_conv_image_fst)

text \<open>
  The own keys of an object literal are its distinct keys in order of
  first occurrence (a duplicate key keeps the position of its first entry).
\<close>

lemma keys_obj_literal:
  "map fst (props (obj_literal defs)) = rev (remdups (rev (map fst defs)))"
proof (induction defs rule: rev_induct)
  case Nil
  then show ?case by (simp add: obj_literal_Nil keys_empty)
next
  case (snoc d defs)
  obtain k v where d: "d = (k, v)" by (cases d)
  have "fst ` set (props (obj_literal defs)) = fst ` set defs"
    by (rule keys_obj_literal_set)
  with snoc.IH d show ?case
    by (simp add: obj_literal_snoc keys_obj_define)
qed

section \<open>Object.keys\<close>

text \<open>\<open>Object.keys\<close> lists exactly the keys the object has a value for.\<close>

lemma set_object_keys: "set (object_keys obj) = dom (obj_get obj)"
proof -
  have "set (object_keys obj) = set (map fst (props obj))"
    by (rule mset_eq_setD) (rule mset_object_keys)
  then show ?thesis by (simp add: set_keys_dom)
qed

text \<open>\<open>Object.keys\<close> repeats no key exactly when the object is well-formed.\<close>

lemma distinct_object_keys: "distinct (object_keys obj) = obj_wf obj"
  unfolding obj_wf_def by (rule mset_eq_imp_distinct_iff) (rule mset_object_keys)

text \<open>
  Reading back any key that \<open>Object.keys\<close> returned never gives
  \<open>undefined\<close> (a consequence of \<open>set_object_keys\<close>).
\<close>

lemma object_keys_defined:
  "k \<in> set (object_keys obj) \<Longrightarrow> \<exists>v. obj_get obj k = Some v"
proof -
  assume "k \<in> set (object_keys obj)"
  then have "k \<in> dom (obj_get obj)"
    by (simp add: set_keys_dom set_object_keys)
  then show ?thesis by (simp add: domD)
qed

lemma sorted_index_part:
  assumes "distinct ks"
  shows "sorted_wrt (\<lambda>a b. string_to_nat a < string_to_nat b)
           (sort_key string_to_nat (filter is_array_index ks))"
proof -
  let ?xs = "sort_key string_to_nat (filter is_array_index ks)"
  have "inj_on string_to_nat (set ?xs)"
    by (rule inj_on_subset [OF inj_on_string_to_nat]) auto
  with assms have "distinct (map string_to_nat ?xs)"
    by (simp add: distinct_map)
  then have "sorted_wrt (<) (map string_to_nat ?xs)"
    by (simp add: strict_sorted_iff)
  then show ?thesis by (simp add: sorted_wrt_map)
qed

text \<open>
  \<open>Object.keys\<close> lists the keys of a well-formed object in the order
  OrdinaryOwnPropertyKeys prescribes: array indices first, ascending by value,
  then the other keys in order of creation.
\<close>

lemma object_keys_order:
  assumes "obj_wf obj"
  shows "sorted_wrt (key_precedes obj) (object_keys obj)"
proof -
  let ?ks = "map fst (props obj)"
  have dist: "distinct ?ks" using assms by (simp add: obj_wf_def)
  have idx: "sorted_wrt (key_precedes obj) (sort_key string_to_nat (filter is_array_index ?ks))"
    by (rule sorted_wrt_mono_rel [OF _ sorted_index_part [OF dist]]) (simp add: key_precedes_def)
  have "sorted_wrt (\<lambda>a b. key_pos a ?ks < key_pos b ?ks) (filter (\<lambda>k. \<not> is_array_index k) ?ks)"
    by (rule sorted_wrt_filter [OF sorted_wrt_key_pos [OF dist]])
  then have rest: "sorted_wrt (key_precedes obj) (filter (\<lambda>k. \<not> is_array_index k) ?ks)"
    by (rule sorted_wrt_mono_rel [rotated]) (simp add: key_precedes_def)
  have cross: "\<forall>x \<in> set (sort_key string_to_nat (filter is_array_index ?ks)).
      \<forall>y \<in> set (filter (\<lambda>k. \<not> is_array_index k) ?ks). key_precedes obj x y"
    by (simp add: key_precedes_def)
  from idx rest cross show ?thesis
    by (simp add: object_keys_def Let_def sorted_wrt_append)
qed

text \<open>The definitions a concrete object, key or \<open>Object.keys\<close> call evaluates by.\<close>

lemmas js_eval = object_keys_def Let_def obj_literal_def obj_define_def empty_object_def
  is_array_index_def canonical_decimal_def is_decimal_digit_def string_to_nat_def char_digit_def
  array_index_limit_def obj_get_map_of obj_wf_def key_precedes_def

end
