(* ===== verification/Vue_Registry.thy ===== *)
theory Vue_Registry
  imports Prelude
begin

text \<open>
  The host framework's global component registry, as far as the repository
  uses it: the call \<open>Vue.component(name, definition)\<close> on line 9 of
  \<open>src/src/components/index.js\<close>. The registry is \<open>Vue.options.components\<close>,
  a map from component names to definitions. Registering a defined
  definition overwrites the entry of that name and returns the definition;
  a call whose definition is \<open>undefined\<close> is the getter form of the same API:
  it registers nothing and returns the current entry.

  The registrar does not depend on Vue itself but on the interface
  \<open>registry_api\<close> (a registration operation and a lookup) and on its contract
  \<open>registry_contract\<close>; \<open>vue_api\<close> is Vue's implementation of the interface and
  \<open>vue_api_contract\<close> discharges the contract for it.
\<close>

section \<open>Vue's global registry\<close>

record 'd vue_global =
  vue_components :: "prop_key \<rightharpoonup> 'd"

text \<open>
  \<open>Vue.component(id, definition)\<close> (the name \<open>id\<close> is \<open>name\<close> here): the pair of the returned value and the new
  global state. \<open>None\<close> is JavaScript's \<open>undefined\<close>.
\<close>

definition vue_component ::
  "prop_key \<Rightarrow> 'd option \<Rightarrow> 'd vue_global \<Rightarrow> 'd option \<times> 'd vue_global" where
  "vue_component name dfn g =
     (case dfn of
        None \<Rightarrow> (vue_components g name, g)
      | Some d \<Rightarrow> (Some d, g\<lparr>vue_components := (vue_components g)(name \<mapsto> d)\<rparr>))"

lemma vue_component_Some [registry_simps]:
  "vue_component name (Some d) g = (Some d, g\<lparr>vue_components := (vue_components g)(name \<mapsto> d)\<rparr>)"
  by (simp add: vue_component_def)

lemma vue_component_None [registry_simps]:
  "vue_component name None g = (vue_components g name, g)"
  by (simp add: vue_component_def)

section \<open>The registry interface and its contract\<close>

text \<open>
  What a component registry offers a registrar: an operation that registers
  an optional definition under a name, and a lookup. Its contract is the
  overwrite semantics of the spec: after registering a definition the name
  maps to it and every other name is unchanged, and an absent definition
  changes no entry.
\<close>

record ('d, 'r) registry_api =
  reg_register :: "prop_key \<Rightarrow> 'd option \<Rightarrow> 'r \<Rightarrow> 'r"
  reg_lookup :: "'r \<Rightarrow> prop_key \<rightharpoonup> 'd"

definition registry_contract :: "('d, 'r) registry_api \<Rightarrow> bool" where
  "registry_contract api \<longleftrightarrow>
     (\<forall>r k d. reg_lookup api (reg_register api k (Some d) r) = (reg_lookup api r)(k \<mapsto> d)) \<and>
     (\<forall>r k. reg_lookup api (reg_register api k None r) = reg_lookup api r)"

lemma registry_contract_Some:
  "registry_contract api \<Longrightarrow>
     reg_lookup api (reg_register api k (Some d) r) = (reg_lookup api r)(k \<mapsto> d)"
  by (simp add: registry_contract_def)

lemma registry_contract_None:
  "registry_contract api \<Longrightarrow> reg_lookup api (reg_register api k None r) = reg_lookup api r"
  by (simp add: registry_contract_def)

text \<open>Vue's implementation of the interface; the returned value is dropped.\<close>

definition vue_api :: "('d, 'd vue_global) registry_api" where
  "vue_api = \<lparr>reg_register = (\<lambda>k dfn g. snd (vue_component k dfn g)),
              reg_lookup = vue_components\<rparr>"

lemma vue_api_sel [registry_simps]:
  "reg_register vue_api k dfn g = snd (vue_component k dfn g)"
  "reg_lookup vue_api = vue_components"
  by (simp_all add: vue_api_def)

section \<open>Properties of the registry\<close>

text \<open>Vue's registry meets the registry contract the registrar relies on.\<close>

lemma vue_api_contract: "registry_contract vue_api"
  by (simp add: registry_contract_def registry_simps)

text \<open>
  registering twice under one name leaves one entry, the later
  definition: the global state is the one a single registration of the
  later definition gives (overwrite, not duplication).
\<close>

lemma vue_component_overwrite:
  "snd (vue_component name (Some d') (snd (vue_component name (Some d) g))) =
   snd (vue_component name (Some d') g)"
  by (simp add: registry_simps)

text \<open>Registrations under different names commute.\<close>

lemma vue_component_commute:
  "name \<noteq> name' \<Longrightarrow>
   snd (vue_component name' dfn' (snd (vue_component name dfn g))) =
   snd (vue_component name dfn (snd (vue_component name' dfn' g)))"
  by (cases dfn; cases dfn') (simp_all add: registry_simps fun_upd_twist)

text \<open>
  Whatever the definition argument, \<open>Vue.component\<close> returns the entry
  the registry holds for the name after the call: the definition just
  registered, or on the getter path (an \<open>undefined\<close> definition) the entry
  that was already there, with the registry unchanged.
\<close>

lemma vue_component_returns_entry:
  "fst (vue_component name dfn g) = vue_components (snd (vue_component name dfn g)) name"
  by (cases dfn) (simp_all add: registry_simps)

end
