(* ===== verification/For_Each.thy ===== *)
theory For_Each
  imports Prelude "HOL-Library.While_Combinator"
begin

text \<open>
  \<open>Array.prototype.forEach\<close>, which the registration module calls on the
  array \<open>Object.keys(Components)\<close> (line 8 of \<open>src/src/components/index.js\<close>).
  ECMAScript's algorithm: read the length \<open>len\<close> once, then for
  \<open>k = 0, 1, ..., len - 1\<close> call the callback with the element at \<open>k\<close> and
  the index \<open>k\<close>, and return \<open>undefined\<close>. The array \<open>Object.keys\<close> returns is
  dense and nothing else holds a reference to it, so every index below
  \<open>len\<close> is present and the callback cannot change the array. The loop is
  kept as a loop (\<open>while_option\<close> over the pair of the index and the state
  the callbacks thread), so that its termination is a theorem. The result
  is \<open>None\<close> exactly when the loop would not stop.
\<close>

section \<open>The loop\<close>

definition for_each :: "('a \<Rightarrow> nat \<Rightarrow> 's \<Rightarrow> 's) \<Rightarrow> 'a list \<Rightarrow> 's \<Rightarrow> 's option" where
  "for_each callback arr s =
     (let len = length arr
      in map_option snd
           (while_option (\<lambda>(k, s). k < len) (\<lambda>(k, s). (Suc k, callback (arr ! k) k s)) (0, s)))"

text \<open>
  The reference: the callbacks applied to the elements from left to right,
  each with its index, starting at index \<open>k\<close>.
\<close>

fun for_each_ref :: "('a \<Rightarrow> nat \<Rightarrow> 's \<Rightarrow> 's) \<Rightarrow> nat \<Rightarrow> 'a list \<Rightarrow> 's \<Rightarrow> 's" where
  "for_each_ref callback k [] s = s"
| "for_each_ref callback k (x # xs) s = for_each_ref callback (Suc k) xs (callback x k s)"

text \<open>
  The same loop when the callback may complete abruptly (throw): ECMAScript
  leaves the loop at the first abrupt completion (ReturnIfAbrupt) and
  \<open>forEach\<close> rethrows it. A callback returns \<open>Inr s\<close> when it returns
  normally and \<open>Inl (e, s)\<close> when it throws \<open>e\<close> in state \<open>s\<close>; the loop runs
  while the index is below \<open>len\<close> and no callback has thrown.
\<close>

definition for_each_abrupt ::
  "('a \<Rightarrow> nat \<Rightarrow> 's \<Rightarrow> ('e \<times> 's) + 's) \<Rightarrow> 'a list \<Rightarrow> 's \<Rightarrow> (('e \<times> 's) + 's) option" where
  "for_each_abrupt callback arr s =
     (let len = length arr
      in map_option snd
           (while_option (\<lambda>(k, r). k < len \<and> (case r of Inl _ \<Rightarrow> False | Inr _ \<Rightarrow> True))
              (\<lambda>(k, r). (Suc k, (case r of Inl x \<Rightarrow> Inl x | Inr s \<Rightarrow> callback (arr ! k) k s)))
              (0, Inr s)))"

fun for_each_abrupt_ref ::
  "('a \<Rightarrow> nat \<Rightarrow> 's \<Rightarrow> ('e \<times> 's) + 's) \<Rightarrow> nat \<Rightarrow> 'a list \<Rightarrow> 's \<Rightarrow> ('e \<times> 's) + 's" where
  "for_each_abrupt_ref callback k [] s = Inr s"
| "for_each_abrupt_ref callback k (x # xs) s =
     (case callback x k s of
        Inl es \<Rightarrow> Inl es
      | Inr s' \<Rightarrow> for_each_abrupt_ref callback (Suc k) xs s')"

section \<open>The loop against the reference\<close>

lemma for_each_loop:
  "k \<le> length arr \<Longrightarrow>
   while_option (\<lambda>(k, s). k < length arr) (\<lambda>(k, s). (Suc k, callback (arr ! k) k s)) (k, s) =
   Some (length arr, for_each_ref callback k (drop k arr) s)"
proof (induction "length arr - k" arbitrary: k s)
  case 0
  then have "k = length arr" by simp
  then show ?case by (subst while_option_unfold) simp
next
  case (Suc n)
  then have lt: "k < length arr" by simp
  with Suc.hyps have "n = length arr - Suc k" by simp
  with lt Suc.hyps(1) [of "Suc k"] have
    "while_option (\<lambda>(k, s). k < length arr) (\<lambda>(k, s). (Suc k, callback (arr ! k) k s))
       (Suc k, callback (arr ! k) k s) =
     Some (length arr, for_each_ref callback (Suc k) (drop (Suc k) arr) (callback (arr ! k) k s))"
    by simp
  moreover have "drop k arr = arr ! k # drop (Suc k) arr"
    using lt by (rule Cons_nth_drop_Suc [symmetric])
  ultimately show ?case
    using lt by (simp add: while_option_unfold [of _ _ "(k, s)"])
qed

lemma for_each_Some_ref: "for_each callback arr s = Some (for_each_ref callback 0 arr s)"
  by (simp add: for_each_def for_each_loop)

lemma for_each_ref_fold:
  "for_each_ref callback k xs s = fold (\<lambda>(i, x) s. callback x i s) (enumerate k xs) s"
  by (induction xs arbitrary: k s) simp_all

lemma for_each_abrupt_loop:
  "k \<le> length arr \<Longrightarrow>
   map_option snd
     (while_option (\<lambda>(k, r). k < length arr \<and> (case r of Inl _ \<Rightarrow> False | Inr _ \<Rightarrow> True))
        (\<lambda>(k, r). (Suc k, (case r of Inl x \<Rightarrow> Inl x | Inr s \<Rightarrow> callback (arr ! k) k s)))
        (k, Inr s)) =
   Some (for_each_abrupt_ref callback k (drop k arr) s)"
proof (induction "length arr - k" arbitrary: k s)
  case 0
  then have "k = length arr" by simp
  then show ?case by (subst while_option_unfold) simp
next
  case (Suc n)
  then have lt: "k < length arr" by simp
  have drop: "drop k arr = arr ! k # drop (Suc k) arr"
    using lt by (rule Cons_nth_drop_Suc [symmetric])
  show ?case
  proof (cases "callback (arr ! k) k s")
    case (Inl es)
    with lt drop show ?thesis
      by (simp add: while_option_unfold [of _ _ "(k, Inr s)"] while_option_unfold [of _ _ "(Suc k, Inl es)"])
  next
    case (Inr s')
    from Suc.hyps lt have "n = length arr - Suc k" by simp
    with lt Suc.hyps(1) [of "Suc k" s'] Inr drop show ?thesis
      by (simp add: while_option_unfold [of _ _ "(k, Inr s)"])
  qed
qed

lemma for_each_abrupt_Some_ref:
  "for_each_abrupt callback arr s = Some (for_each_abrupt_ref callback 0 arr s)"
  by (simp add: for_each_abrupt_def for_each_abrupt_loop)

lemma for_each_abrupt_ref_normal:
  "for_each_abrupt_ref (\<lambda>x k s. Inr (callback x k s)) k xs s = Inr (for_each_ref callback k xs s)"
  by (induction xs arbitrary: k s) simp_all

lemma for_each_abrupt_normal:
  "for_each_abrupt (\<lambda>x k s. Inr (callback x k s)) arr s = map_option Inr (for_each callback arr s)"
  by (simp add: for_each_abrupt_Some_ref for_each_Some_ref for_each_abrupt_ref_normal)

section \<open>Properties of forEach\<close>

text \<open>
  \<open>forEach\<close> is the left fold of the callback over the elements paired
  with their indices \<open>0, 1, ...\<close>: each element is visited once, in order,
  with its own index.
\<close>

theorem for_each_fold:
  "for_each callback arr s = Some (fold (\<lambda>(i, x) s. callback x i s) (enumerate 0 arr) s)"
  by (simp add: for_each_Some_ref for_each_ref_fold)

end
