(* ===== verification/Registrar.thy ===== *)
theory Registrar
  imports Js_Object Vue_Registry For_Each
begin

text \<open>
  The module \<open>src/src/components/index.js\<close>. Lines 4--6 build the object
  \<open>Components = { IntersectionScroller }\<close>; lines 8--10 run
  \<open>Object.keys(Components).forEach(name => Vue.component(name, Components[name]))\<close>;
  line 12 exports \<open>Components\<close>. The loop is modelled once over any
  registry that implements \<open>registry_api\<close> (\<open>register_names\<close>,
  \<open>register_components\<close>) and the module body (\<open>index_module\<close>) instantiates
  it with Vue's registry. The imported component (line 2) is opaque: it is
  the parameter \<open>intersection_scroller\<close> of any type \<open>'d\<close>.
\<close>

section \<open>The registration loop\<close>

text \<open>
  \<open>names.forEach(name => Vue.component(name, Components[name]))\<close>: one
  registration per name, in the order of the array, each reading the
  property \<open>Components[name]\<close> at the time of the call.
\<close>

primrec register_names ::
  "('d, 'r) registry_api \<Rightarrow> 'd js_object \<Rightarrow> prop_key list \<Rightarrow> 'r \<Rightarrow> 'r" where
  "register_names api C [] r = r"
| "register_names api C (name # names) r =
     register_names api C names (reg_register api name (obj_get C name) r)"

text \<open>\<open>Object.keys(Components).forEach(...)\<close> (lines 8--10).\<close>

definition register_components :: "('d, 'r) registry_api \<Rightarrow> 'd js_object \<Rightarrow> 'r \<Rightarrow> 'r" where
  "register_components api C r = register_names api C (object_keys C) r"

text \<open>
  The sequence of \<open>Vue.component\<close> calls the loop issues: the name and the
  value \<open>Components[name]\<close> passed with it, in call order.
\<close>

definition registration_calls :: "'d js_object \<Rightarrow> (prop_key \<times> 'd option) list" where
  "registration_calls C = map (\<lambda>name. (name, obj_get C name)) (object_keys C)"

text \<open>
  The arrow function \<open>name => { Vue.component(name, Components[name]); }\<close>
  (lines 8--10) as a \<open>forEach\<close> callback: it receives the element and its
  index, ignores the index and the returned value of \<open>Vue.component\<close>.
\<close>

definition register_callback ::
  "('d, 'r) registry_api \<Rightarrow> 'd js_object \<Rightarrow> prop_key \<Rightarrow> nat \<Rightarrow> 'r \<Rightarrow> 'r" where
  "register_callback api C name k r = reg_register api name (obj_get C name) r"

text \<open>Lines 8--10 as written: \<open>forEach\<close> over \<open>Object.keys(Components)\<close>.\<close>

definition register_loop :: "('d, 'r) registry_api \<Rightarrow> 'd js_object \<Rightarrow> 'r \<Rightarrow> 'r option" where
  "register_loop api C r = for_each (register_callback api C) (object_keys C) r"

text \<open>
  The registry after each call of the loop, in call order: the states an
  observer of the registry sees between the calls.
\<close>

primrec register_trace :: "('d, 'r) registry_api \<Rightarrow> 'd js_object \<Rightarrow> prop_key list \<Rightarrow> 'r \<Rightarrow> 'r list" where
  "register_trace api C [] r = []"
| "register_trace api C (name # names) r =
     (let r' = reg_register api name (obj_get C name) r in r' # register_trace api C names r')"

section \<open>The module\<close>

text \<open>\<open>const Components = { IntersectionScroller }\<close> (lines 4--6).\<close>

definition Components :: "'d \<Rightarrow> 'd js_object" where
  "Components intersection_scroller = obj_literal [(''IntersectionScroller'', intersection_scroller)]"

text \<open>
  Evaluating the module body against Vue's global state: the exported
  \<open>Components\<close> object (line 12) and the global state after the loop.
\<close>

definition index_module :: "'d \<Rightarrow> 'd vue_global \<Rightarrow> 'd js_object \<times> 'd vue_global" where
  "index_module intersection_scroller g =
     (let C = Components intersection_scroller
      in (C, register_components vue_api C g))"

section \<open>The loop against the contract\<close>

lemma index_module_eq [registry_simps]:
  "index_module ic g = (Components ic, register_components vue_api (Components ic) g)"
  by (simp add: index_module_def Let_def)

lemma register_names_lookup:
  assumes "registry_contract api"
  shows "reg_lookup api (register_names api C ns r) = upd_each (obj_get C) ns (reg_lookup api r)"
proof (induction ns arbitrary: r)
  case Nil
  then show ?case by simp
next
  case (Cons n ns)
  show ?case
    using assms
    by (cases "obj_get C n") (simp_all add: Cons.IH registry_contract_Some registry_contract_None fun_upd_def)
qed

lemma register_names_vue [registry_simps]:
  "register_names vue_api C ns g = g\<lparr>vue_components := upd_each (obj_get C) ns (vue_components g)\<rparr>"
proof (induction ns arbitrary: g)
  case Nil
  then show ?case by simp
next
  case (Cons n ns)
  then show ?case by (cases "obj_get C n") (simp_all add: registry_simps fun_upd_def)
qed

lemma upd_each_object_keys: "upd_each (obj_get C) (object_keys C) m = m ++ obj_get C"
  by (simp add: upd_each_restrict set_object_keys)

lemma register_components_vue [registry_simps]:
  "register_components vue_api C g = g\<lparr>vue_components := vue_components g ++ obj_get C\<rparr>"
  by (simp add: register_components_def registry_simps upd_each_object_keys)

lemma register_names_foldl:
  "register_names api C ns r =
     foldl (\<lambda>r (n, d). reg_register api n d r) r (map (\<lambda>name. (name, obj_get C name)) ns)"
  by (induction ns arbitrary: r) simp_all

lemma register_components_calls:
  "register_components api C r = foldl (\<lambda>r (n, d). reg_register api n d r) r (registration_calls C)"
  by (simp add: register_components_def registration_calls_def register_names_foldl)

section \<open>Properties of the registration loop\<close>

text \<open>
  C2 (refinement): over any registry that meets the contract, the loop
  implements the abstract registration "add every entry of the object to the
  registry, overwriting entries of the same name".
\<close>

lemma register_components_refines:
  "registry_contract api \<Longrightarrow>
   reg_lookup api (register_components api C r) = reg_lookup api r ++ obj_get C"
  by (simp add: register_components_def register_names_lookup upd_each_object_keys)


section \<open>The module's object\<close>

lemma not_array_index_IntersectionScroller [js_simps]:
  "\<not> is_array_index ''IntersectionScroller''"
  by (simp add: is_array_index_def canonical_decimal_def is_decimal_digit_def)

lemma Components_eq:
  "Components ic = JsObject [(''IntersectionScroller'', ic)]"
  by (simp add: Components_def obj_literal_def obj_define_def empty_object_def)

lemma object_keys_Components [js_simps]:
  "object_keys (Components ic) = [''IntersectionScroller'']"
  by (simp add: Components_eq object_keys_def js_simps)

lemma obj_get_Components [js_simps]:
  "obj_get (Components ic) = [''IntersectionScroller'' \<mapsto> ic]"
  by (simp add: Components_eq obj_get_map_of)

section \<open>The loop as written: forEach\<close>

lemma for_each_ref_register:
  "for_each_ref (register_callback api C) k ns r = register_names api C ns r"
  by (induction ns arbitrary: k r) (simp_all add: register_callback_def)

text \<open>
  The loop as the source writes it, \<open>forEach\<close> over \<open>Object.keys\<close>,
  terminates and ends in the registry the structural model
  \<open>register_components\<close> computes.
\<close>

theorem register_loop_eq: "register_loop api C r = Some (register_components api C r)"
  by (simp add: register_loop_def register_components_def for_each_Some_ref for_each_ref_register)

section \<open>The registry between the calls\<close>

lemma length_register_trace [simp]: "length (register_trace api C ns r) = length ns"
  by (induction ns arbitrary: r) (simp_all add: Let_def)

lemma register_trace_nth:
  "i < length ns \<Longrightarrow> register_trace api C ns r ! i = register_names api C (take (Suc i) ns) r"
proof (induction ns arbitrary: i r)
  case Nil
  then show ?case by simp
next
  case (Cons n ns)
  then show ?case by (cases i) (simp_all add: Let_def)
qed

text \<open>
  C5: after the \<open>i\<close>-th call of the loop the registry holds, besides its
  former entries, exactly the entries of the first \<open>i + 1\<close> names of
  \<open>Object.keys\<close>: names are registered one at a time, in the order of the
  array.
\<close>

theorem register_trace_prefix:
  assumes "registry_contract api" and "i < length (object_keys C)"
  shows "reg_lookup api (register_trace api C (object_keys C) r ! i) =
         reg_lookup api r ++ (obj_get C |` set (take (Suc i) (object_keys C)))"
  using assms by (simp add: register_trace_nth register_names_lookup upd_each_restrict)

end
