(* ===== verification/Module_Loader.thy ===== *)
theory Module_Loader
  imports Registrar
begin

text \<open>
  The life cycle of the module \<open>src/src/components/index.js\<close> inside an
  application. An ES module is evaluated once: the first \<open>import\<close> runs its
  body (lines 1--12: the imports, the object, the registration loop and the
  export) and records the module's exports; every later \<open>import\<close> returns
  the recorded exports and runs nothing. Meanwhile other code of the
  application may call \<open>Vue.component\<close> itself. The application is a state
  (Vue's global state, the module record, a count of body evaluations) and
  these two kinds of events; \<open>app_reachable\<close> is the set of states some
  sequence of events reaches.
\<close>

section \<open>States and events\<close>

record 'd app_state =
  app_vue :: "'d vue_global"
  app_index :: "'d js_object option"
  app_runs :: nat

datatype 'd app_event =
  ImportIndex
| HostRegister prop_key "'d option"

definition app_init :: "'d vue_global \<Rightarrow> 'd app_state" where
  "app_init g = \<lparr>app_vue = g, app_index = None, app_runs = 0\<rparr>"

text \<open>
  \<open>import Components from "./components"\<close>: the default export and the
  state after the import. Only the first import evaluates the body.
\<close>

definition import_index :: "'d \<Rightarrow> 'd app_state \<Rightarrow> 'd js_object \<times> 'd app_state" where
  "import_index intersection_scroller s =
     (case app_index s of
        Some C \<Rightarrow> (C, s)
      | None \<Rightarrow>
          (let (C, g) = index_module intersection_scroller (app_vue s)
           in (C, s\<lparr>app_vue := g, app_index := Some C, app_runs := Suc (app_runs s)\<rparr>)))"

fun app_step :: "'d \<Rightarrow> 'd app_event \<Rightarrow> 'd app_state \<Rightarrow> 'd app_state" where
  "app_step ic ImportIndex s = snd (import_index ic s)"
| "app_step ic (HostRegister name dfn) s = s\<lparr>app_vue := snd (vue_component name dfn (app_vue s))\<rparr>"

fun app_run :: "'d \<Rightarrow> 'd app_event list \<Rightarrow> 'd app_state \<Rightarrow> 'd app_state" where
  "app_run ic [] s = s"
| "app_run ic (e # es) s = app_run ic es (app_step ic e s)"

inductive app_reachable :: "'d \<Rightarrow> 'd vue_global \<Rightarrow> 'd app_state \<Rightarrow> bool" for ic g0 where
  init: "app_reachable ic g0 (app_init g0)"
| step: "app_reachable ic g0 s \<Longrightarrow> app_reachable ic g0 (app_step ic e s)"


section \<open>The invariant\<close>

text \<open>
  The module body has run at most once; it has run exactly when the module
  record is present; the record holds the \<open>Components\<close> object; and once it
  ran, the name \<open>IntersectionScroller\<close> has an entry in Vue's registry (Vue
  has no operation that removes an entry).
\<close>

definition app_inv :: "'d \<Rightarrow> 'd app_state \<Rightarrow> bool" where
  "app_inv ic s \<longleftrightarrow>
     app_runs s \<le> 1 \<and>
     (app_runs s = 1) = (app_index s \<noteq> None) \<and>
     (app_index s \<noteq> None \<longrightarrow>
        app_index s = Some (Components ic) \<and>
        ''IntersectionScroller'' \<in> dom (vue_components (app_vue s)))"

lemma import_index_None [registry_simps]:
  "app_index s = None \<Longrightarrow>
   import_index ic s =
     (Components ic, s\<lparr>app_vue := register_components vue_api (Components ic) (app_vue s),
                       app_index := Some (Components ic), app_runs := Suc (app_runs s)\<rparr>)"
  by (simp add: import_index_def index_module_def Let_def)

lemma import_index_Some [registry_simps]:
  "app_index s = Some C \<Longrightarrow> import_index ic s = (C, s)"
  by (simp add: import_index_def)

lemma app_inv_init: "app_inv ic (app_init g)"
  by (simp add: app_inv_def app_init_def)

lemma app_inv_step: "app_inv ic s \<Longrightarrow> app_inv ic (app_step ic e s)"
proof (cases e)
  case ImportIndex
  assume inv: "app_inv ic s"
  show ?thesis
  proof (cases "app_index s")
    case None
    with inv ImportIndex show ?thesis
      by (simp add: app_inv_def registry_simps js_simps)
  next
    case (Some C)
    with inv ImportIndex show ?thesis
      by (simp add: registry_simps)
  qed
next
  case (HostRegister name dfn)
  assume "app_inv ic s"
  with HostRegister show ?thesis
    by (cases dfn) (auto simp: app_inv_def registry_simps)
qed

lemma app_reachable_inv: "app_reachable ic g0 s \<Longrightarrow> app_inv ic s"
proof (induction rule: app_reachable.induct)
  case init
  show ?case by (rule app_inv_init)
next
  case (step s e)
  from step.IH show ?case by (rule app_inv_step)
qed

lemma app_run_reachable:
  "app_reachable ic g0 s \<Longrightarrow> app_reachable ic g0 (app_run ic es s)"
proof (induction es arbitrary: s)
  case Nil
  then show ?case by simp
next
  case (Cons e es)
  then show ?case by (simp add: app_reachable.step)
qed

section \<open>Properties of the module's life cycle\<close>

text \<open>
  C4: once the module has been imported, \<open>IntersectionScroller\<close> stays
  registered, whatever other registrations the application makes.
\<close>

theorem registered_after_import:
  "app_reachable ic g0 s \<Longrightarrow> app_index s \<noteq> None \<Longrightarrow>
   ''IntersectionScroller'' \<in> dom (vue_components (app_vue s))"
  by (drule app_reachable_inv) (simp add: app_inv_def)

end
