(* ===== verification/Module_Graph.thy ===== *)
theory Module_Graph
  imports Prelude
begin

text \<open>
  The two import declarations of \<open>src/src/components/index.js\<close>
  (lines 1--2): \<open>import Vue from "vue"\<close> and
  \<open>import IntersectionScroller from "./intersection-scroller.vue"\<close>. Before
  the body of a module runs, the modules it requests are evaluated, in the
  order of its import declarations, depth first, each module at most once
  (ECMAScript's InnerModuleEvaluation: a module already evaluated or still
  being evaluated on the current path is skipped, so a cycle does not
  recurse). A module graph maps each resolved module name to the list of the
  modules it requests; a name the graph does not hold cannot be loaded, and
  loading stops with \<open>ModuleNotFound\<close>. The evaluation is a recursion with
  fuel: running out of fuel is \<open>None\<close>, and \<open>eval_module_terminates\<close> shows
  that more fuel than there are modules always suffices. The result is the
  order in which module bodies execute.
\<close>

section \<open>Module graphs and their evaluation\<close>

type_synonym mod_name = string

type_synonym module_graph = "mod_name \<Rightarrow> mod_name list option"

datatype load_error = ModuleNotFound mod_name

fun eval_module ::
  "module_graph \<Rightarrow> nat \<Rightarrow> mod_name list \<Rightarrow> mod_name \<Rightarrow> mod_name list \<Rightarrow>
   (load_error + mod_name list) option"
and eval_requests ::
  "module_graph \<Rightarrow> nat \<Rightarrow> mod_name list \<Rightarrow> mod_name list \<Rightarrow> mod_name list \<Rightarrow>
   (load_error + mod_name list) option" where
  "eval_module G 0 stk m evd = None"
| "eval_module G (Suc n) stk m evd =
     (if m \<in> set evd \<or> m \<in> set stk then Some (Inr evd)
      else (case G m of
              None \<Rightarrow> Some (Inl (ModuleNotFound m))
            | Some reqs \<Rightarrow>
                (case eval_requests G n (m # stk) reqs evd of
                   None \<Rightarrow> None
                 | Some (Inl e) \<Rightarrow> Some (Inl e)
                 | Some (Inr evd') \<Rightarrow> Some (Inr (evd' @ [m])))))"
| "eval_requests G n stk [] evd = Some (Inr evd)"
| "eval_requests G n stk (r # rs) evd =
     (case eval_module G n stk r evd of
        None \<Rightarrow> None
      | Some (Inl e) \<Rightarrow> Some (Inl e)
      | Some (Inr evd') \<Rightarrow> eval_requests G n stk rs evd')"

text \<open>
  \<open>eval_module G n stk m evd\<close> evaluates module \<open>m\<close> with fuel \<open>n\<close>,
  \<open>stk\<close> the modules being evaluated on the current path and \<open>evd\<close> the
  modules already evaluated, in execution order; \<open>eval_requests\<close> evaluates
  a module's requests from left to right.
\<close>

text \<open>
  The requests of \<open>src/src/components/index.js\<close> (lines 1--2), as resolved
  module names: the package \<open>vue\<close>, then the single-file component beside
  the module.
\<close>

definition index_requests :: "mod_name list" where
  "index_requests = [''vue'', ''src/components/intersection-scroller.vue'']"

definition index_name :: mod_name where
  "index_name = ''src/components/index.js''"

section \<open>Evaluation lemmas\<close>

text \<open>
  \<open>eval_ok stk evd d\<close>: the execution order \<open>d\<close> extends \<open>evd\<close>, executes no
  module twice, and adds no module that is on the path \<open>stk\<close>.
\<close>

definition eval_ok :: "mod_name list \<Rightarrow> mod_name list \<Rightarrow> mod_name list \<Rightarrow> bool" where
  "eval_ok stk evd d \<longleftrightarrow>
     distinct d \<and> (\<exists>e. d = evd @ e) \<and> (set d - set evd) \<inter> set stk = {}"

lemma eval_ok_refl: "distinct evd \<Longrightarrow> eval_ok stk evd evd"
  by (simp add: eval_ok_def)

lemma eval_ok_trans: "eval_ok stk d0 d1 \<Longrightarrow> eval_ok stk d1 d2 \<Longrightarrow> eval_ok stk d0 d2"
  by (auto simp: eval_ok_def)

lemma eval_ok_snoc:
  "eval_ok (m # stk) evd d \<Longrightarrow> m \<notin> set evd \<Longrightarrow> m \<notin> set stk \<Longrightarrow> eval_ok stk evd (d @ [m])"
  by (auto simp: eval_ok_def)

lemma eval_ok_distinct: "eval_ok stk evd d \<Longrightarrow> distinct d"
  by (simp add: eval_ok_def)

lemma eval_ok_mono: "eval_ok stk evd d \<Longrightarrow> set evd \<subseteq> set d"
  by (auto simp: eval_ok_def)

lemma eval_sound:
  "(eval_module G n stk m evd = Some (Inr d) \<Longrightarrow> distinct evd \<Longrightarrow>
      eval_ok stk evd d \<and> (m \<in> set d \<or> m \<in> set stk))"
  "(eval_requests G n stk rs evd = Some (Inr d) \<Longrightarrow> distinct evd \<Longrightarrow>
      eval_ok stk evd d \<and> set rs \<subseteq> set d \<union> set stk)"
proof (induction G n stk m evd and G n stk rs evd arbitrary: d and d rule: eval_module_eval_requests.induct)
  case (1 G stk m evd)
  then show ?case by simp
next
  case (2 G n stk m evd)
  show ?case
  proof (cases "m \<in> set evd \<or> m \<in> set stk")
    case True
    with 2 show ?thesis by (auto simp: eval_ok_refl)
  next
    case False
    then obtain reqs d' where G: "G m = Some reqs"
      and rq: "eval_requests G n (m # stk) reqs evd = Some (Inr d')" and d: "d = d' @ [m]"
      using "2.prems"(1) by (auto split: option.splits sum.splits)
    from "2.IH"[OF False G rq "2.prems"(2)] have "eval_ok (m # stk) evd d'" by simp
    with False d show ?thesis by (simp add: eval_ok_snoc)
  qed
next
  case (3 G n stk evd)
  then show ?case by (simp add: eval_ok_refl)
next
  case (4 G n stk r rs evd)
  from "4.prems"(1) obtain d1 where r: "eval_module G n stk r evd = Some (Inr d1)"
    and rs: "eval_requests G n stk rs d1 = Some (Inr d)"
    by (auto split: option.splits sum.splits)
  from "4.IH"(1)[OF r "4.prems"(2)] have ok1: "eval_ok stk evd d1" and r_in: "r \<in> set d1 \<or> r \<in> set stk"
    by simp_all
  from "4.IH"(2)[OF r refl rs eval_ok_distinct[OF ok1]]
  have ok2: "eval_ok stk d1 d" and rs_in: "set rs \<subseteq> set d \<union> set stk" by simp_all
  from ok1 ok2 have "eval_ok stk evd d" by (rule eval_ok_trans)
  moreover from r_in eval_ok_mono[OF ok2] rs_in have "set (r # rs) \<subseteq> set d \<union> set stk" by auto
  ultimately show ?case by simp
qed

lemma eval_requests_fuel:
  "(\<And>r evd. eval_module G n stk r evd \<noteq> None) \<Longrightarrow> eval_requests G n stk rs evd \<noteq> None"
proof (induction rs arbitrary: evd)
  case Nil
  then show ?case by simp
next
  case (Cons r rs)
  from Cons.prems obtain x where x: "eval_module G n stk r evd = Some x" by blast
  with Cons show ?case by (cases x) auto
qed

lemma card_stack_less:
  assumes "finite (dom G)" "distinct stk" "set stk \<subseteq> dom G" "m \<in> dom G" "m \<notin> set stk"
  shows "length stk < card (dom G)"
proof -
  have "card (set (m # stk)) \<le> card (dom G)"
    using assms by (intro card_mono) auto
  with assms(2,5) show ?thesis by (simp add: distinct_card)
qed

lemma eval_module_fuel:
  "finite (dom G) \<Longrightarrow> distinct stk \<Longrightarrow> set stk \<subseteq> dom G \<Longrightarrow> card (dom G) - length stk < n \<Longrightarrow>
   eval_module G n stk m evd \<noteq> None"
proof (induction n arbitrary: stk m evd)
  case 0
  then show ?case by simp
next
  case (Suc n)
  show ?case
  proof (cases "m \<in> set evd \<or> m \<in> set stk")
    case True
    then show ?thesis by simp
  next
    case False
    show ?thesis
    proof (cases "G m")
      case None
      with False show ?thesis by simp
    next
      case (Some reqs)
      then have "m \<in> dom G" by blast
      with Suc.prems False have "length stk < card (dom G)" by (intro card_stack_less) auto
      with Suc.prems(4) have fuel: "card (dom G) - length (m # stk) < n" by simp
      from Suc.prems(2,3) False \<open>m \<in> dom G\<close>
      have "distinct (m # stk)" "set (m # stk) \<subseteq> dom G" by auto
      note IH = Suc.IH[OF Suc.prems(1) this fuel]
      have "eval_requests G n (m # stk) reqs evd \<noteq> None" by (rule eval_requests_fuel) (rule IH)
      with False Some show ?thesis by (auto split: option.splits sum.splits)
    qed
  qed
qed

lemma eval_module_runs:
  assumes "eval_module G n stk m evd = Some (Inr d)" "m \<notin> set evd" "m \<notin> set stk" "G m = Some reqs"
  obtains d' where "d = d' @ [m]" "eval_requests G (n - 1) (m # stk) reqs evd = Some (Inr d')"
proof (cases n)
  case 0
  with assms(1) show ?thesis by simp
next
  case (Suc k)
  with assms that show ?thesis by (auto split: option.splits sum.splits)
qed

text \<open>
  A load error names a module the graph lacks, which is the module imported
  or a module that some module of the graph requests.
\<close>

lemma eval_error:
  "(eval_module G n stk m evd = Some (Inl e) \<Longrightarrow>
      \<exists>x. e = ModuleNotFound x \<and> G x = None \<and> (x = m \<or> (\<exists>y ys. G y = Some ys \<and> x \<in> set ys)))"
  "(eval_requests G n stk rs evd = Some (Inl e) \<Longrightarrow>
      \<exists>x. e = ModuleNotFound x \<and> G x = None \<and> (x \<in> set rs \<or> (\<exists>y ys. G y = Some ys \<and> x \<in> set ys)))"
  by (induction G n stk m evd and G n stk rs evd rule: eval_module_eval_requests.induct)
     (auto split: if_splits option.splits sum.splits)

section \<open>Properties of module evaluation\<close>

text \<open>
  For a finite module graph, evaluating a module with more
  fuel than the graph has modules returns a result (an execution order or a
  load error); it never runs out of fuel.
\<close>

theorem eval_module_terminates:
  "finite (dom G) \<Longrightarrow> card (dom G) < n \<Longrightarrow> \<exists>r. eval_module G n [] m [] = Some r"
  using eval_module_fuel [of G "[]" n m "[]"] by auto

text \<open>
  A successful evaluation executes the body of every module at most
  once, and executes the body of the imported module itself.
\<close>

theorem eval_module_once:
  "eval_module G n [] m [] = Some (Inr d) \<Longrightarrow> distinct d \<and> m \<in> set d"
  using eval_sound(1) [of G n "[]" m "[]" d] by (simp add: eval_ok_def)

text \<open>
  The body of the imported module runs last, after the body
  of every module it requests (other than itself).
\<close>

theorem eval_module_deps_first:
  assumes "eval_module G n [] m [] = Some (Inr d)" "G m = Some reqs"
  shows "last d = m \<and> (\<forall>r \<in> set reqs. r \<noteq> m \<longrightarrow> r \<in> set (butlast d))"
proof -
  obtain d' where d: "d = d' @ [m]" and rq: "eval_requests G (n - 1) [m] reqs [] = Some (Inr d')"
    by (rule eval_module_runs [OF assms(1) _ _ assms(2)]) simp_all
  from eval_sound(2)[OF rq] have "set reqs \<subseteq> set d' \<union> {m}" by simp
  with d show ?thesis by auto
qed

text \<open>
  C6: when \<open>src/src/components/index.js\<close> is imported, the bodies of
  \<open>vue\<close> and of \<open>intersection-scroller.vue\<close> have run before its own body,
  so \<open>Vue\<close> and \<open>IntersectionScroller\<close> are bound when line 9 calls
  \<open>Vue.component\<close>, whatever the two modules import themselves.
\<close>

theorem index_vue_first:
  "G index_name = Some index_requests \<Longrightarrow> eval_module G n [] index_name [] = Some (Inr d) \<Longrightarrow>
   last d = index_name \<and> ''vue'' \<in> set (butlast d) \<and> ''src/components/intersection-scroller.vue'' \<in> set (butlast d)"
  using eval_module_deps_first [of G n index_name d index_requests]
  by (simp add: index_requests_def index_name_def)

text \<open>
  C7 (error path): if the package \<open>vue\<close> cannot be resolved, importing the
  module fails with \<open>ModuleNotFound "vue"\<close> and no module body runs, so no
  component is registered.
\<close>

theorem index_vue_missing:
  "G index_name = Some index_requests \<Longrightarrow> G ''vue'' = None \<Longrightarrow> 1 < n \<Longrightarrow>
   eval_module G n [] index_name [] = Some (Inl (ModuleNotFound ''vue''))"
  by (cases n; cases "n - 1") (auto simp: index_requests_def index_name_def)

end
