(* ===== verification/Application.thy ===== *)
theory Application
  imports Module_Loader Module_Graph
begin

text \<open>
  The first import of \<open>src/src/components/index.js\<close> in full: the module
  graph below it is loaded and its bodies run in evaluation order
  (\<open>Module_Graph\<close>), then the body of the module itself runs and its exports
  are recorded (\<open>Module_Loader\<close>). A later import returns the recorded
  exports and loads nothing. A load error stops the import before any body
  runs: the application state is unchanged and the module stays unimported.
\<close>

section \<open>Loading the module\<close>

text \<open>
  A module graph is closed when every module it requests is in the graph:
  every import of every module can be resolved.
\<close>

definition graph_closed :: "module_graph \<Rightarrow> bool" where
  "graph_closed G \<longleftrightarrow> (\<forall>m reqs. G m = Some reqs \<longrightarrow> set reqs \<subseteq> dom G)"

text \<open>
  \<open>import Components from "./components"\<close> in an application whose module
  graph is \<open>G\<close>, with fuel \<open>n\<close> for the graph evaluation: the load error, or
  the exports and the state after the import.
\<close>

definition load_index ::
  "module_graph \<Rightarrow> nat \<Rightarrow> 'd \<Rightarrow> 'd app_state \<Rightarrow> (load_error + 'd js_object \<times> 'd app_state) option" where
  "load_index G n ic s =
     (case app_index s of
        Some C \<Rightarrow> Some (Inr (C, s))
      | None \<Rightarrow>
          (case eval_module G n [] index_name [] of
             None \<Rightarrow> None
           | Some (Inl e) \<Rightarrow> Some (Inl e)
           | Some (Inr d) \<Rightarrow> Some (Inr (import_index ic s))))"

section \<open>Lemmas\<close>

lemma eval_module_closed:
  assumes "graph_closed G" "G m \<noteq> None"
  shows "eval_module G n stk m evd \<noteq> Some (Inl e)"
proof
  assume "eval_module G n stk m evd = Some (Inl e)"
  then obtain x where "G x = None" "x = m \<or> (\<exists>y ys. G y = Some ys \<and> x \<in> set ys)"
    by (blast dest: eval_error(1))
  with assms show False by (auto simp: graph_closed_def)
qed

lemma eval_module_enough_fuel:
  "finite (dom G) \<Longrightarrow> card (dom G) < n \<Longrightarrow> eval_module G n [] m evd \<noteq> None"
  by (rule eval_module_fuel) simp_all

lemma load_index_imported [registry_simps]:
  "app_index s = Some C \<Longrightarrow> load_index G n ic s = Some (Inr (C, s))"
  by (simp add: load_index_def)

section \<open>Properties of the first import\<close>

text \<open>
  C8 (composition): in an application whose module graph is finite, closed
  and holds \<open>index.js\<close> with its two imports, an import of the module from
  any reachable state, with more fuel than the graph has modules, succeeds:
  it returns \<open>Components\<close> and leaves \<open>IntersectionScroller\<close> registered.
\<close>

theorem load_index_registers:
  assumes "finite (dom G)" "card (dom G) < n" "graph_closed G" "G index_name = Some index_requests"
    and "app_reachable ic g0 s"
  shows "\<exists>s'. load_index G n ic s = Some (Inr (Components ic, s')) \<and>
             ''IntersectionScroller'' \<in> dom (vue_components (app_vue s'))"
proof -
  from assms(5) have inv: "app_inv ic s" by (rule app_reachable_inv)
  show ?thesis
  proof (cases "app_index s")
    case (Some C)
    with inv show ?thesis by (simp add: app_inv_def registry_simps)
  next
    case None
    from assms(1,2) have "eval_module G n [] index_name [] \<noteq> None" by (rule eval_module_enough_fuel)
    moreover from assms(3,4) have "\<And>e. eval_module G n [] index_name [] \<noteq> Some (Inl e)"
      by (intro eval_module_closed) simp_all
    ultimately obtain d where "eval_module G n [] index_name [] = Some (Inr d)"
      by (metis not_None_eq sum.exhaust)
    with None show ?thesis by (simp add: load_index_def registry_simps js_simps)
  qed
qed

end
