(* ===== verification/Registrar_Errors.thy ===== *)
theory Registrar_Errors
  imports Registrar
begin

text \<open>
  The registration loop (lines 8--10 of \<open>src/src/components/index.js\<close>)
  on a host whose registration call may throw: the spec leaves errors to the
  host ("a missing or malformed component definition would surface as a
  host-framework error at registration", section 4.1; "registration either
  succeeds or the host framework throws", section 6). The module catches
  nothing, so an exception thrown by \<open>Vue.component\<close> leaves the arrow
  function, then \<open>forEach\<close>, then the module body; the registrations made
  before it stay in the registry. The host is an interface like
  \<open>registry_api\<close>, whose registration returns \<open>Inl e\<close> when it throws \<open>e\<close>;
  its contract is the overwrite semantics on success and no change on a
  throw (the failed call returns no new registry).
\<close>

section \<open>A registry whose registration may throw\<close>

record ('d, 'r, 'e) fallible_registry =
  freg_register :: "prop_key \<Rightarrow> 'd option \<Rightarrow> 'r \<Rightarrow> 'e + 'r"
  freg_lookup :: "'r \<Rightarrow> prop_key \<rightharpoonup> 'd"

definition fallible_contract :: "('d, 'r, 'e) fallible_registry \<Rightarrow> bool" where
  "fallible_contract api \<longleftrightarrow>
     (\<forall>r k d r'. freg_register api k (Some d) r = Inr r' \<longrightarrow>
        freg_lookup api r' = (freg_lookup api r)(k \<mapsto> d)) \<and>
     (\<forall>r k r'. freg_register api k None r = Inr r' \<longrightarrow> freg_lookup api r' = freg_lookup api r)"

section \<open>The loop on such a registry\<close>

text \<open>
  The arrow function \<open>name => { Vue.component(name, Components[name]); }\<close>:
  it returns normally with the new registry, or throws the host's error with
  the registry as it was.
\<close>

definition register_callback_exc ::
  "('d, 'r, 'e) fallible_registry \<Rightarrow> 'd js_object \<Rightarrow> prop_key \<Rightarrow> nat \<Rightarrow> 'r \<Rightarrow> ('e \<times> 'r) + 'r" where
  "register_callback_exc api C name k r =
     (case freg_register api name (obj_get C name) r of
        Inl e \<Rightarrow> Inl (e, r)
      | Inr r' \<Rightarrow> Inr r')"

text \<open>
  Lines 8--10 as written, on a host that may throw: the exception and the
  registry at the throw, or the registry after the loop.
\<close>

definition register_loop_exc ::
  "('d, 'r, 'e) fallible_registry \<Rightarrow> 'd js_object \<Rightarrow> 'r \<Rightarrow> (('e \<times> 'r) + 'r) option" where
  "register_loop_exc api C r = for_each_abrupt (register_callback_exc api C) (object_keys C) r"

section \<open>Lemmas\<close>

lemma fallible_contract_step:
  "fallible_contract api \<Longrightarrow> freg_register api n (f n) r = Inr r' \<Longrightarrow>
   freg_lookup api r' = upd_each f [n] (freg_lookup api r)"
  by (cases "f n") (simp_all add: fallible_contract_def)

lemma register_callback_exc_throw:
  "freg_register api n (obj_get C n) r = Inl e \<Longrightarrow> register_callback_exc api C n k r = Inl (e, r)"
  by (simp add: register_callback_exc_def)

lemma register_callback_exc_return:
  "freg_register api n (obj_get C n) r = Inr r1 \<Longrightarrow> register_callback_exc api C n k r = Inr r1"
  by (simp add: register_callback_exc_def)

lemma register_exc_ref_throw:
  assumes "fallible_contract api"
  shows "for_each_abrupt_ref (register_callback_exc api C) k ns r = Inl (e, r') \<Longrightarrow>
         \<exists>j < length ns. freg_lookup api r' = upd_each (obj_get C) (take j ns) (freg_lookup api r) \<and>
                         freg_register api (ns ! j) (obj_get C (ns ! j)) r' = Inl e"
proof (induction ns arbitrary: k r)
  case Nil
  then show ?case by simp
next
  case (Cons n ns)
  show ?case
  proof (cases "freg_register api n (obj_get C n) r")
    case (Inl e0)
    with Cons.prems have "e0 = e" "r' = r" by (simp_all add: register_callback_exc_throw)
    with Inl show ?thesis by (intro exI [of _ 0]) simp
  next
    case (Inr r1)
    with Cons.prems have "for_each_abrupt_ref (register_callback_exc api C) (Suc k) ns r1 = Inl (e, r')"
      by (simp add: register_callback_exc_return)
    then obtain j where j: "j < length ns"
      and lk: "freg_lookup api r' = upd_each (obj_get C) (take j ns) (freg_lookup api r1)"
      and th: "freg_register api (ns ! j) (obj_get C (ns ! j)) r' = Inl e"
      using Cons.IH by blast
    have "freg_lookup api r1 = upd_each (obj_get C) [n] (freg_lookup api r)"
      using assms Inr by (rule fallible_contract_step)
    with lk have "freg_lookup api r' = upd_each (obj_get C) (take (Suc j) (n # ns)) (freg_lookup api r)"
      by simp
    with j th show ?thesis by (intro exI [of _ "Suc j"]) simp
  qed
qed

lemma register_exc_ref_normal:
  assumes "fallible_contract api"
  shows "for_each_abrupt_ref (register_callback_exc api C) k ns r = Inr r' \<Longrightarrow>
         freg_lookup api r' = upd_each (obj_get C) ns (freg_lookup api r)"
proof (induction ns arbitrary: k r)
  case Nil
  then show ?case by simp
next
  case (Cons n ns)
  show ?case
  proof (cases "freg_register api n (obj_get C n) r")
    case (Inl e0)
    with Cons.prems show ?thesis by (simp add: register_callback_exc_throw)
  next
    case (Inr r1)
    with Cons.prems have "for_each_abrupt_ref (register_callback_exc api C) (Suc k) ns r1 = Inr r'"
      by (simp add: register_callback_exc_return)
    then have "freg_lookup api r' = upd_each (obj_get C) ns (freg_lookup api r1)" by (rule Cons.IH)
    moreover have "freg_lookup api r1 = upd_each (obj_get C) [n] (freg_lookup api r)"
      using assms Inr by (rule fallible_contract_step)
    ultimately show ?thesis by simp
  qed
qed

text \<open>
  When no registration throws, the loop ends with every entry of the object
  registered, as on a registry that cannot throw (\<open>register_components_refines\<close>).
\<close>

lemma register_loop_exc_normal:
  "fallible_contract api \<Longrightarrow> register_loop_exc api C r = Some (Inr r') \<Longrightarrow>
   freg_lookup api r' = freg_lookup api r ++ obj_get C"
  by (simp add: register_loop_exc_def for_each_abrupt_Some_ref register_exc_ref_normal
                upd_each_object_keys)

lemma register_loop_exc_terminates: "\<exists>res. register_loop_exc api C r = Some res"
  by (simp add: register_loop_exc_def for_each_abrupt_Some_ref)

section \<open>The loop when the host throws\<close>

text \<open>
  C9 (error path): if a call of \<open>Vue.component\<close> throws, the loop stops at
  that call: for some position \<open>k\<close> of \<open>Object.keys(Components)\<close> the
  registration of the \<open>k\<close>-th name threw, the names before it are registered
  and no later name is (the module leaves a partial registration behind).
\<close>

theorem register_loop_exc_partial:
  assumes "fallible_contract api" and "register_loop_exc api C r = Some (Inl (e, r'))"
  shows "\<exists>k < length (object_keys C).
           freg_lookup api r' = freg_lookup api r ++ (obj_get C |` set (take k (object_keys C))) \<and>
           freg_register api (object_keys C ! k) (obj_get C (object_keys C ! k)) r' = Inl e"
proof -
  from assms(2) have "for_each_abrupt_ref (register_callback_exc api C) 0 (object_keys C) r = Inl (e, r')"
    by (simp add: register_loop_exc_def for_each_abrupt_Some_ref)
  then obtain k where "k < length (object_keys C)"
    and "freg_lookup api r' = upd_each (obj_get C) (take k (object_keys C)) (freg_lookup api r)"
    and "freg_register api (object_keys C ! k) (obj_get C (object_keys C ! k)) r' = Inl e"
    using register_exc_ref_throw [OF assms(1)] by blast
  then show ?thesis by (auto simp: upd_each_restrict)
qed

end
