(* ===== verification/Module_Status.thy ===== *)
theory Module_Status
  imports Module_Loader Registrar_Errors
begin

text \<open>
  The life cycle of \<open>src/src/components/index.js\<close> when the host's
  registration may throw (\<open>Registrar_Errors\<close>). ECMAScript records the
  outcome of a module's evaluation: a body that completes leaves the module
  evaluated with its exports; a body that throws leaves it evaluated with the
  thrown value as its evaluation error, and every later import rethrows that
  value without running the body again. The registrations the body made
  before the throw stay in the host's registry. For a host that never throws
  this is the life cycle of \<open>Module_Loader\<close>.
\<close>

section \<open>States and events\<close>

text \<open>
  The status of the module: not yet evaluated, evaluated with its exports,
  or evaluated with an evaluation error.
\<close>

datatype ('d, 'e) module_status =
  NotEvaluated
| Evaluated "'d js_object"
| EvaluationError 'e

record ('d, 'r, 'e) fapp_state =
  fapp_reg :: 'r
  fapp_status :: "('d, 'e) module_status"
  fapp_runs :: nat

definition fapp_init :: "'r \<Rightarrow> ('d, 'r, 'e) fapp_state" where
  "fapp_init r = \<lparr>fapp_reg = r, fapp_status = NotEvaluated, fapp_runs = 0\<rparr>"

text \<open>
  The module body (lines 4--10) on a host that may throw: the object
  \<open>Components\<close> and the loop \<open>register_loop_exc\<close>, here through its
  reference recursion, to which the loop is equal
  (\<open>for_each_abrupt_Some_ref\<close>). Line 12 is reached only if the loop
  completes.
\<close>

definition index_body_exc ::
  "('d, 'r, 'e) fallible_registry \<Rightarrow> 'd \<Rightarrow> 'r \<Rightarrow> ('e \<times> 'r) + 'r" where
  "index_body_exc api intersection_scroller r =
     (let C = Components intersection_scroller
      in for_each_abrupt_ref (register_callback_exc api C) 0 (object_keys C) r)"

text \<open>
  \<open>import Components from "./components"\<close>: the thrown value or the
  exports, and the state after the import.
\<close>

definition fimport_index ::
  "('d, 'r, 'e) fallible_registry \<Rightarrow> 'd \<Rightarrow> ('d, 'r, 'e) fapp_state \<Rightarrow>
   ('e + 'd js_object) \<times> ('d, 'r, 'e) fapp_state" where
  "fimport_index api intersection_scroller s =
     (case fapp_status s of
        Evaluated C \<Rightarrow> (Inr C, s)
      | EvaluationError e \<Rightarrow> (Inl e, s)
      | NotEvaluated \<Rightarrow>
          (case index_body_exc api intersection_scroller (fapp_reg s) of
             Inl (e, r) \<Rightarrow>
               (Inl e, s\<lparr>fapp_reg := r, fapp_status := EvaluationError e, fapp_runs := Suc (fapp_runs s)\<rparr>)
           | Inr r \<Rightarrow>
               (Inr (Components intersection_scroller),
                s\<lparr>fapp_reg := r, fapp_status := Evaluated (Components intersection_scroller),
                  fapp_runs := Suc (fapp_runs s)\<rparr>)))"

text \<open>
  The events of \<open>Module_Loader\<close>: an import of the module, or a registration
  by other code of the application, which may throw too (the state is then
  unchanged).
\<close>

fun fapp_step ::
  "('d, 'r, 'e) fallible_registry \<Rightarrow> 'd \<Rightarrow> 'd app_event \<Rightarrow> ('d, 'r, 'e) fapp_state \<Rightarrow> ('d, 'r, 'e) fapp_state" where
  "fapp_step api ic ImportIndex s = snd (fimport_index api ic s)"
| "fapp_step api ic (HostRegister name dfn) s =
     (case freg_register api name dfn (fapp_reg s) of
        Inl e \<Rightarrow> s
      | Inr r \<Rightarrow> s\<lparr>fapp_reg := r\<rparr>)"

fun fapp_run ::
  "('d, 'r, 'e) fallible_registry \<Rightarrow> 'd \<Rightarrow> 'd app_event list \<Rightarrow> ('d, 'r, 'e) fapp_state \<Rightarrow> ('d, 'r, 'e) fapp_state" where
  "fapp_run api ic [] s = s"
| "fapp_run api ic (e # es) s = fapp_run api ic es (fapp_step api ic e s)"

text \<open>
  The invariant of the life cycle on any host: the body has run at most
  once, and it has run exactly when the module is no longer unevaluated.
\<close>

definition fapp_inv :: "('d, 'r, 'e) fapp_state \<Rightarrow> bool" where
  "fapp_inv s \<longleftrightarrow> fapp_runs s \<le> 1 \<and> (fapp_runs s = 0) = (fapp_status s = NotEvaluated)"

section \<open>Lemmas\<close>

lemma fapp_inv_step: "fapp_inv s \<Longrightarrow> fapp_inv (fapp_step api ic ev s)"
  by (cases ev; cases "fapp_status s")
     (auto simp: fapp_inv_def fimport_index_def split: sum.splits prod.splits)

lemma fapp_inv_run: "fapp_inv s \<Longrightarrow> fapp_inv (fapp_run api ic es s)"
  by (induction es arbitrary: s) (simp_all add: fapp_inv_step)

text \<open>On every host, the body of the module runs at most once in a run of the application.\<close>

lemma fapp_body_at_most_once:
  "fapp_runs (fapp_run api ic es (fapp_init r :: ('d, 'r, 'e) fapp_state)) \<le> 1"
proof -
  have "fapp_inv (fapp_init r :: ('d, 'r, 'e) fapp_state)" by (simp add: fapp_inv_def fapp_init_def)
  then have "fapp_inv (fapp_run api ic es (fapp_init r :: ('d, 'r, 'e) fapp_state))" by (rule fapp_inv_run)
  then show ?thesis by (simp add: fapp_inv_def)
qed

section \<open>The first import of the module on a host that may throw\<close>

text \<open>
  C10 (error path and normal path): the first import of the module makes
  exactly one call of the host, \<open>Vue.component("IntersectionScroller",
  IntersectionScroller)\<close>, on the registry as it was. If that call throws,
  the import throws the same value, the registry is left as it was and the
  module is recorded as failed; otherwise the import returns
  \<open>Components\<close>, the registry is the one the call returned, and the module
  is recorded as evaluated with \<open>Components\<close> as its exports.
\<close>

theorem import_index_on_host:
  "fimport_index api ic (fapp_init r) =
     (case freg_register api ''IntersectionScroller'' (Some ic) r of
        Inl e \<Rightarrow> (Inl e, \<lparr>fapp_reg = r, fapp_status = EvaluationError e, fapp_runs = 1\<rparr>)
      | Inr r' \<Rightarrow> (Inr (Components ic),
                    \<lparr>fapp_reg = r', fapp_status = Evaluated (Components ic), fapp_runs = 1\<rparr>))"
  by (simp add: fimport_index_def fapp_init_def index_body_exc_def js_simps register_callback_exc_def
           split: sum.split)

end
