(* ===== verification/Spec2Isabelle.thy ===== *)
theory Spec2Isabelle
  imports Application Module_Status
begin

text \<open>
  \<^bold>\<open>A verification library for intersection-scroller-vue's component registration.\<close>

  \<^medskip>\<^bold>\<open>The program.\<close> The repository's code is one module,
  \<open>src/src/components/index.js\<close> (12 lines). It imports Vue and the single-file
  component \<open>./intersection-scroller.vue\<close> (lines 1--2), builds the object
  \<open>Components = { IntersectionScroller }\<close> (lines 4--6), calls
  \<open>Vue.component(name, Components[name])\<close> for every name of
  \<open>Object.keys(Components)\<close> (lines 8--10) and exports \<open>Components\<close> (line 12).
  Its parts interact as follows: the JavaScript object supplies the names and
  the definitions; the loop hands each pair to Vue's global component
  registry; the ES module system decides when the loop runs.

  \<^medskip>\<^bold>\<open>The theories.\<close>
  \<^item> \<open>Prelude\<close>: the names of the model's types (\<open>prop_key\<close>, \<open>prop_list\<close>),
    the rule collections \<open>js_simps\<close> and \<open>registry_simps\<close>, and the generic
    facts on association lists, folds of map updates (\<open>upd_each\<close>) and
    list positions (\<open>key_pos\<close>) that the component proofs share.
  \<^item> \<open>Js_Keys\<close>: the JavaScript property keys that \<open>Object.keys\<close> (line 8)
    orders specially. \<open>nat_to_string\<close> is \<open>Number::toString\<close> on
    non-negative integers, \<open>string_to_nat\<close> reads a decimal string,
    \<open>is_array_index\<close> is ECMAScript's array-index test (canonical numeral of
    an integer below \<open>2^32 - 1\<close>), \<open>to_uint32\<close> ToUint32 on \<open>32 word\<close>.
    Lemmas, which validate the model of the built-in: printing and reading a
    numeral are inverse, the test holds exactly of the numerals below the
    bound, and it agrees with ECMAScript's own definition
    \<open>ToString(ToUint32(P)) = P \<and> ToUint32(P) \<noteq> 2^32 - 1\<close>.
  \<^item> \<open>Js_Object\<close>: an object (\<open>js_object\<close>) is its list of own properties in
    creation order. \<open>obj_define\<close> is CreateDataProperty, \<open>obj_literal\<close> the
    evaluation of an object literal (lines 4--6), \<open>obj_get\<close> the read
    \<open>Components[name]\<close> (line 9, \<open>None\<close> for \<open>undefined\<close>), \<open>object_keys\<close>
    \<open>Object.keys\<close> (line 8). Lemmas, which validate the model of the
    built-ins: well-formedness (no duplicate own key)
    of every literal and its preservation by \<open>obj_define\<close>; the value and the
    key order of a literal with duplicate keys; \<open>Object.keys\<close> lists exactly
    the defined keys, without repetition, in the order OrdinaryOwnPropertyKeys
    prescribes (\<open>key_precedes\<close>, a separate statement of that order).
  \<^item> \<open>For_Each\<close>: \<open>Array.prototype.forEach\<close> (line 8) as ECMAScript
    describes it on a dense array, a \<open>while_option\<close> loop over the index
    (\<open>for_each\<close>), and a structural reference (\<open>for_each_ref\<close>). Lemmas: the
    loop returns on every input and equals the reference (\<open>for_each_Some_ref\<close>,
    by unfolding along the measure \<open>len - k\<close>), and so the left fold of the
    callback over the elements paired with their indices.
    \<open>for_each_abrupt\<close> is the same loop when a callback may throw: it stops at
    the first abrupt completion and rethrows it; with a callback that never
    throws it is \<open>for_each\<close>.
  \<^item> \<open>Vue_Registry\<close>: Vue's global state (\<open>vue_global\<close>, the field
    \<open>vue_components\<close> being \<open>Vue.options.components\<close>) and
    \<open>vue_component\<close>, the call \<open>Vue.component(name, definition)\<close> of line 9 with
    its returned value. The interface between registrar and registry is the
    record \<open>registry_api\<close> with the contract \<open>registry_contract\<close> (overwrite
    semantics, spec section 3); \<open>vue_api\<close> implements it. Lemmas: overwrite
    instead of duplication, commutation of registrations of different names,
    the returned value.
  \<^item> \<open>Registrar\<close>: the loop (\<open>register_names\<close>, \<open>register_components\<close>,
    lines 8--10) over any \<open>registry_api\<close>, the sequence of calls it makes
    (\<open>registration_calls\<close>), \<open>Components\<close> (lines 4--6) and the module body
    \<open>index_module\<close> (lines 1--12) on Vue's registry. The loop as written
    (\<open>register_loop\<close>: \<open>for_each\<close> with the arrow function
    \<open>register_callback\<close>) equals the structural loop (\<open>register_loop_eq\<close>).
    Properties: the loop refines the abstract registration
    \<open>registry ++ object\<close> on every registry that meets the contract (C2); it
    calls \<open>Vue.component\<close> once per name and never with \<open>undefined\<close> (C3);
    the registry between the calls (\<open>register_trace\<close>) holds exactly the
    names of a growing prefix of \<open>Object.keys\<close> (C5).
  \<^item> \<open>Registrar_Errors\<close>: the error path the spec leaves to the host
    (sections 4.1 and 6): a registry whose registration may throw
    (\<open>fallible_registry\<close>, contract \<open>fallible_contract\<close>: overwrite on success,
    no change on a throw), and the loop as written on it
    (\<open>register_loop_exc\<close>: \<open>for_each_abrupt\<close> with the arrow function
    \<open>register_callback_exc\<close>). Lemmas: the loop terminates; without a throw it
    registers every entry. Property: after a throw exactly the names of
    \<open>Object.keys\<close> before the failing one are registered (C9).
  \<^item> \<open>Module_Loader\<close>: the application around the module as a state machine.
    \<open>app_state\<close> holds Vue's global state, the module record (\<open>None\<close> before
    the first import) and the number of evaluations of the body; the events
    are an import of the module and a registration by other code of the
    application; \<open>app_reachable\<close> is the inductive set of reachable states.
    The invariant \<open>app_inv\<close> holds in every reachable state (rule induction
    over \<open>app_reachable\<close>). Property: once the module has been imported,
    \<open>IntersectionScroller\<close> stays registered, whatever other code registers
    (C4).
  \<^item> \<open>Module_Status\<close>: the life cycle on a host that may throw. The
    module record has a status (\<open>module_status\<close>: not evaluated, evaluated
    with its exports, or evaluated with an evaluation error, ECMAScript's
    [[EvaluationError]]); \<open>index_body_exc\<close> is the body (lines 4--10) on such
    a host, \<open>fimport_index\<close> the import, \<open>fapp_step\<close> and \<open>fapp_run\<close> the
    application's events. Lemma: the body runs at most once on every host
    (invariant \<open>fapp_inv\<close>). Property: the first import makes exactly the
    one call \<open>Vue.component("IntersectionScroller", IntersectionScroller)\<close>;
    if it throws, the import throws the same value with the registry
    unchanged and the module recorded as failed, otherwise the import returns
    \<open>Components\<close> with the registry the call returned (C10).
  \<^item> \<open>Module_Graph\<close>: the import declarations (lines 1--2) and the
    evaluation of an ES module graph that precedes the body. A graph
    (\<open>module_graph\<close>) maps a resolved module name to the modules it requests,
    in the order of its import declarations (\<open>index_requests\<close> for this
    module); \<open>eval_module\<close> and \<open>eval_requests\<close> are ECMAScript's depth-first
    InnerModuleEvaluation, with the path of modules being evaluated, the
    modules already evaluated, the load error \<open>ModuleNotFound\<close> and fuel.
    Lemmas: enough fuel (more than the number of modules) always gives a
    result; each body runs at most once; a module's body runs after the
    bodies it requests; a load error names a module the graph lacks.
    Properties: \<open>vue\<close> and \<open>intersection-scroller.vue\<close> run before the body of
    this module, so before line 9 (C6); a missing \<open>vue\<close> stops the import
    with \<open>ModuleNotFound\<close> before any body runs (C7).
  \<^item> \<open>Application\<close>: the two composed. \<open>load_index\<close> is an import of the
    module with its load phase: on the first import the module graph is
    evaluated (\<open>eval_module\<close>), then the body runs (\<open>import_index\<close>); a load
    error stops it with the state unchanged. Lemmas: in a finite graph closed
    under its imports (\<open>graph_closed\<close>) that holds the module's two requests,
    enough fuel makes every import succeed, return \<open>Components\<close> and
    register the component (C8).
  \<^item> \<open>Spec2Isabelle\<close> (this theory): the effect of the whole module
    (\<open>index_module\<close>, C1) and the witnesses of the properties at concrete
    inputs.

  \<^medskip>\<^bold>\<open>Properties.\<close> C1--C10 are the properties of this program: each
  fails when \<open>index.js\<close> is changed in a plausible way (the loop dropped or
  cut short, another key or value, the registry not threaded between the
  calls, an import dropped or reordered, a host error caught). The lemmas
  about \<open>Object.keys\<close>, array indices, object literals, \<open>forEach\<close> and module
  evaluation hold for every program: they validate the models of the
  built-ins the module calls and carry the proofs of C1--C10.

  \<^medskip>\<^bold>\<open>Choices.\<close> Definitions of components are opaque: a type variable
  \<open>'d\<close>, instantiated with \<open>nat\<close> in the witnesses. \<open>forEach\<close> is kept as
  a loop (\<open>while_option\<close>, \<open>None\<close> for a loop that does not stop) and its
  termination is proved with the measure \<open>len - k\<close>; the other loops are
  structural recursion over finite lists; the one non-structural recursion,
  \<open>nat_to_string\<close>, terminates by \<open>fun\<close>'s own measure. Module evaluation
  recurses over a graph that may have cycles; it carries fuel, and since each
  nested call puts a new module of the graph on the path, a fuel larger than
  the number of modules is enough (\<open>eval_module_terminates\<close>). The array-index bound \<open>2^32 - 1\<close> is ECMAScript's and is written
  out as \<open>array_index_limit\<close>. \<open>undefined\<close> is \<open>None\<close>; a call
  \<open>Vue.component(name, undefined)\<close> is Vue's getter form and registers nothing.

  \<^medskip>\<^bold>\<open>Not modelled.\<close> The component \<open>intersection-scroller.vue\<close> is not
  part of the sources and its behaviour is unknown: it is the opaque parameter
  \<open>intersection_scroller\<close>. Vue beyond the component registry (rendering,
  reactivity, \<open>Vue.extend\<close>, name validation warnings) is the host's. Of
  JavaScript objects only own, enumerable, string-keyed data properties are
  modelled (the only kind an object literal without \<open>__proto__\<close>, getters or
  computed keys creates); the prototype chain is not, since every name read
  on line 9 is an own key (\<open>object_keys_defined\<close>). Symbols, accessors and
  property attributes are not modelled. The bodies of \<open>vue\<close> and of
  \<open>intersection-scroller.vue\<close> are not modelled, only the order in which
  they run (\<open>Module_Graph\<close>). That order is proved for every graph, cycles
  included: if the component imported the module back, its body would still
  run before line 9 (\<open>index_vue_first\<close>), and would see the export
  \<open>Components\<close> uninitialised; the binding itself is not modelled, since the
  sources do not show such an import. The life cycle of \<open>Module_Loader\<close>
  assumes the body completes; \<open>Module_Status\<close> adds the module that
  throws. Exports are values: whether two imports return the same object
  (identity) is not expressible, so only their equality is. Module graphs are not
  combined with the errored status: a load error happens before any body
  runs (\<open>Application\<close>) and leaves no module record. Vue's registry is
  modelled from the spec only as far as the module uses it (registration and
  lookup), as the host library is not part of the sources.

  \<^medskip>\<^bold>\<open>Plan.\<close> Modelled in this order, the most important behaviour first:
  the registration loop and the module body (functional and refinement
  properties), the JavaScript object operations the loop relies on
  (safety of \<open>Components[name]\<close>, key order), Vue's registry behind its
  interface, and the module's life cycle (invariants over reachable states).
  Second sitting: \<open>forEach\<close> as written, the registry between the calls. Third sitting: the import declarations and module-graph
  evaluation (termination with fuel, order of execution, load errors), and
  their composition with the module's life cycle (\<open>Application\<close>);
  registration on a host that throws (\<open>Registrar_Errors\<close>). Fourth
  sitting: the module status with evaluation errors (\<open>Module_Status\<close>).
  Revision: properties that hold for every program (facts of the models of
  the built-ins and of ES module caching) were turned into lemmas or removed,
  and the first import on a throwing host was added as C10. With it, every line of
  the module and every behaviour of it that the sources determine is
  modelled; what remains is outside the sources (the component, Vue, the
  bodies of the imported modules).
\<close>

section \<open>The module as a whole\<close>

text \<open>
  C1: evaluating the module against any Vue global state registers the
  imported component under \<open>IntersectionScroller\<close>, by identity, and
  changes no other entry of the registry.
\<close>

theorem index_module_effect:
  "snd (index_module ic g) = g\<lparr>vue_components := (vue_components g)(''IntersectionScroller'' \<mapsto> ic)\<rparr>"
  by (simp add: registry_simps js_simps)

section \<open>Witnesses\<close>

text \<open>
  Each property applied at a concrete input: a small registry, an object
  literal with a duplicate key, array-index keys and other keys, and a run of
  the application. Definitions are \<open>nat\<close>s.
\<close>

theorem index_module_effect_witness:
  "snd (index_module (7::nat) \<lparr>vue_components = [''Other'' \<mapsto> 1]\<rparr>) =
   \<lparr>vue_components = [''Other'' \<mapsto> 1, ''IntersectionScroller'' \<mapsto> 7]\<rparr>"
  using index_module_effect [of "7::nat" "\<lparr>vue_components = [''Other'' \<mapsto> 1]\<rparr>"] by simp

theorem register_components_refines_witness:
  "registry_contract (vue_api :: (nat, nat vue_global) registry_api) \<and>
   reg_lookup vue_api (register_components vue_api (obj_literal [(''a'', 1::nat), (''2'', 5)])
     \<lparr>vue_components = [''b'' \<mapsto> 2]\<rparr>) =
   [''b'' \<mapsto> 2] ++ obj_get (obj_literal [(''a'', 1::nat), (''2'', 5)])"
proof -
  have c: "registry_contract (vue_api :: (nat, nat vue_global) registry_api)"
    by (rule vue_api_contract)
  show ?thesis
    using c Registrar.register_components_refines [OF c, of "obj_literal [(''a'', 1::nat), (''2'', 5)]"
      "\<lparr>vue_components = [''b'' \<mapsto> 2]\<rparr>"]
    by (simp add: registry_simps)
qed


theorem registered_after_import_witness:
  "app_reachable (7::nat) \<lparr>vue_components = Map.empty\<rparr>
     (app_run (7::nat) [ImportIndex, HostRegister ''Other'' (Some 1)] (app_init \<lparr>vue_components = Map.empty\<rparr>)) \<and>
   app_index (app_run (7::nat) [ImportIndex, HostRegister ''Other'' (Some 1)]
     (app_init \<lparr>vue_components = Map.empty\<rparr>)) \<noteq> None \<and>
   ''IntersectionScroller'' \<in> dom (vue_components (app_vue (app_run (7::nat) [ImportIndex, HostRegister ''Other'' (Some 1)]
     (app_init \<lparr>vue_components = Map.empty\<rparr>))))"
proof -
  let ?s = "app_run (7::nat) [ImportIndex, HostRegister ''Other'' (Some 1)] (app_init \<lparr>vue_components = Map.empty\<rparr>)"
  have r: "app_reachable (7::nat) \<lparr>vue_components = Map.empty\<rparr> ?s"
    by (rule app_run_reachable [OF app_reachable.init])
  have i: "app_index ?s \<noteq> None"
    by (simp add: app_init_def registry_simps)
  show ?thesis using r i Module_Loader.registered_after_import [OF r i] by simp
qed

theorem object_keys_example:
  "object_keys (obj_literal [(''b'', 1::nat), (''10'', 2), (''a'', 3), (''2'', 4)]) = [''2'', ''10'', ''b'', ''a'']"
  by (simp add: js_eval)

theorem register_trace_prefix_witness:
  "registry_contract (vue_api :: (nat, nat vue_global) registry_api) \<and>
   1 < length (object_keys (obj_literal [(''a'', 1::nat), (''b'', 2)])) \<and>
   reg_lookup vue_api (register_trace vue_api (obj_literal [(''a'', 1::nat), (''b'', 2)])
      (object_keys (obj_literal [(''a'', 1::nat), (''b'', 2)])) \<lparr>vue_components = Map.empty\<rparr> ! 1) =
   reg_lookup vue_api \<lparr>vue_components = Map.empty\<rparr> ++
     (obj_get (obj_literal [(''a'', 1::nat), (''b'', 2)]) |`
        set (take (Suc 1) (object_keys (obj_literal [(''a'', 1::nat), (''b'', 2)]))))"
proof -
  have c: "registry_contract (vue_api :: (nat, nat vue_global) registry_api)"
    by (rule vue_api_contract)
  have l: "1 < length (object_keys (obj_literal [(''a'', 1::nat), (''b'', 2)]))"
    by (simp add: js_eval)
  show ?thesis by (rule conjI [OF c conjI [OF l Registrar.register_trace_prefix [OF c l]]])
qed

theorem index_vue_first_witness:
  "[index_name \<mapsto> index_requests, ''vue'' \<mapsto> [], ''src/components/intersection-scroller.vue'' \<mapsto> [''vue'']]
     index_name = Some index_requests \<and>
   eval_module [index_name \<mapsto> index_requests, ''vue'' \<mapsto> [], ''src/components/intersection-scroller.vue'' \<mapsto> [''vue'']]
     4 [] index_name [] = Some (Inr [''vue'', ''src/components/intersection-scroller.vue'', index_name]) \<and>
   last [''vue'', ''src/components/intersection-scroller.vue'', index_name] = index_name \<and>
   ''vue'' \<in> set (butlast [''vue'', ''src/components/intersection-scroller.vue'', index_name])"
  using Module_Graph.index_vue_first
    [of "[index_name \<mapsto> index_requests, ''vue'' \<mapsto> [], ''src/components/intersection-scroller.vue'' \<mapsto> [''vue'']]"
        4 "[''vue'', ''src/components/intersection-scroller.vue'', index_name]"]
  by (simp add: index_name_def index_requests_def numeral_eq_Suc)

theorem index_vue_missing_witness:
  "[index_name \<mapsto> index_requests] index_name = Some index_requests \<and>
   [index_name \<mapsto> index_requests] ''vue'' = None \<and>
   eval_module [index_name \<mapsto> index_requests] 3 [] index_name [] = Some (Inl (ModuleNotFound ''vue''))"
  using Module_Graph.index_vue_missing [of "[index_name \<mapsto> index_requests]" 3]
  by (simp add: index_name_def)

theorem load_index_registers_witness:
  "finite (dom [index_name \<mapsto> index_requests, ''vue'' \<mapsto> [], ''src/components/intersection-scroller.vue'' \<mapsto> [''vue'']]) \<and> card (dom [index_name \<mapsto> index_requests, ''vue'' \<mapsto> [], ''src/components/intersection-scroller.vue'' \<mapsto> [''vue'']]) < 4 \<and>
   graph_closed [index_name \<mapsto> index_requests, ''vue'' \<mapsto> [], ''src/components/intersection-scroller.vue'' \<mapsto> [''vue'']] \<and>
   [index_name \<mapsto> index_requests, ''vue'' \<mapsto> [], ''src/components/intersection-scroller.vue'' \<mapsto> [''vue'']] index_name = Some index_requests \<and>
   app_reachable (7::nat) \<lparr>vue_components = Map.empty\<rparr> (app_init \<lparr>vue_components = Map.empty\<rparr>) \<and>
   (\<exists>s'. load_index [index_name \<mapsto> index_requests, ''vue'' \<mapsto> [], ''src/components/intersection-scroller.vue'' \<mapsto> [''vue'']] 4 (7::nat) (app_init \<lparr>vue_components = Map.empty\<rparr>) = Some (Inr (Components 7, s')) \<and>
         ''IntersectionScroller'' \<in> dom (vue_components (app_vue s')))"
proof -
  have f: "finite (dom [index_name \<mapsto> index_requests, ''vue'' \<mapsto> [], ''src/components/intersection-scroller.vue'' \<mapsto> [''vue'']])" by simp
  have c: "card (dom [index_name \<mapsto> index_requests, ''vue'' \<mapsto> [], ''src/components/intersection-scroller.vue'' \<mapsto> [''vue'']]) < 4" by (simp add: index_name_def)
  have cl: "graph_closed [index_name \<mapsto> index_requests, ''vue'' \<mapsto> [], ''src/components/intersection-scroller.vue'' \<mapsto> [''vue'']]"
    by (auto simp: graph_closed_def index_name_def index_requests_def split: if_splits)
  have i: "[index_name \<mapsto> index_requests, ''vue'' \<mapsto> [], ''src/components/intersection-scroller.vue'' \<mapsto> [''vue'']] index_name = Some index_requests" by (simp add: index_name_def)
  have r: "app_reachable (7::nat) \<lparr>vue_components = Map.empty\<rparr> (app_init \<lparr>vue_components = Map.empty\<rparr>)"
    by (rule app_reachable.init)
  show ?thesis using Application.load_index_registers [OF f c cl i r] f c cl i r by blast
qed

theorem register_loop_exc_partial_witness:
  "fallible_contract \<lparr>freg_register = (\<lambda>k d (m :: prop_key \<rightharpoonup> nat). if k = ''B'' then Inl ''invalid definition'' else Inr (case d of None \<Rightarrow> m | Some v \<Rightarrow> m(k \<mapsto> v))), freg_lookup = id\<rparr> \<and>
   register_loop_exc \<lparr>freg_register = (\<lambda>k d (m :: prop_key \<rightharpoonup> nat). if k = ''B'' then Inl ''invalid definition'' else Inr (case d of None \<Rightarrow> m | Some v \<Rightarrow> m(k \<mapsto> v))), freg_lookup = id\<rparr> (obj_literal [(''A'', 1::nat), (''B'', 2)]) Map.empty = Some (Inl (''invalid definition'', [''A'' \<mapsto> 1])) \<and>
   (\<exists>k < length (object_keys (obj_literal [(''A'', 1::nat), (''B'', 2)])).
      [''A'' \<mapsto> 1] = Map.empty ++ (obj_get (obj_literal [(''A'', 1::nat), (''B'', 2)]) |` set (take k (object_keys (obj_literal [(''A'', 1::nat), (''B'', 2)])))) \<and>
      freg_register \<lparr>freg_register = (\<lambda>k d (m :: prop_key \<rightharpoonup> nat). if k = ''B'' then Inl ''invalid definition'' else Inr (case d of None \<Rightarrow> m | Some v \<Rightarrow> m(k \<mapsto> v))), freg_lookup = id\<rparr> (object_keys (obj_literal [(''A'', 1::nat), (''B'', 2)]) ! k) (obj_get (obj_literal [(''A'', 1::nat), (''B'', 2)]) (object_keys (obj_literal [(''A'', 1::nat), (''B'', 2)]) ! k)) [''A'' \<mapsto> 1] =
        Inl ''invalid definition'')"
proof -
  have c: "fallible_contract \<lparr>freg_register = (\<lambda>k d (m :: prop_key \<rightharpoonup> nat). if k = ''B'' then Inl ''invalid definition'' else Inr (case d of None \<Rightarrow> m | Some v \<Rightarrow> m(k \<mapsto> v))), freg_lookup = id\<rparr>"
    by (simp add: fallible_contract_def)
  have l: "register_loop_exc \<lparr>freg_register = (\<lambda>k d (m :: prop_key \<rightharpoonup> nat). if k = ''B'' then Inl ''invalid definition'' else Inr (case d of None \<Rightarrow> m | Some v \<Rightarrow> m(k \<mapsto> v))), freg_lookup = id\<rparr> (obj_literal [(''A'', 1::nat), (''B'', 2)]) Map.empty = Some (Inl (''invalid definition'', [''A'' \<mapsto> 1]))"
    by (simp add: register_loop_exc_def for_each_abrupt_Some_ref register_callback_exc_def js_eval)
  show ?thesis using Registrar_Errors.register_loop_exc_partial [OF c l] c l by simp
qed

end
